theory Spec2Isabelle
  imports Main
begin

section \<open>Data model\<close>

text \<open>
  The three normalised collections of the store. Ids are JavaScript numbers that only
  ever hold integers here, so they are \<open>int\<close>; \<open>-1\<close> is the "no option" / "no group"
  marker. The field names of the source (\<open>id\<close>, \<open>value\<close>, \<open>active\<close>, ...) are prefixed,
  because record fields are global constants.
\<close>

record item =
  item_id :: int
  item_value :: string
  item_label :: string
  item_optionId :: int
  item_active :: bool
  item_selected :: bool

record optionR =
  opt_id :: int
  opt_value :: string
  opt_label :: string
  opt_groupId :: int
  opt_disabled :: bool
  opt_selected :: bool
  opt_active :: bool

record group =
  grp_id :: int
  grp_value :: string
  grp_active :: bool
  grp_disabled :: bool

subsection \<open>JavaScript values that reach the public operations\<close>

text \<open>
  \<open>removeItem\<close>, \<open>removeItemsByValue\<close> and the lifecycle callbacks are tested at run time
  with truthiness and with \<open>isType\<close>, so their arguments are modelled as tagged
  JavaScript values. A function value is opaque: it is identified by a number.
  An object is an item record.
\<close>

datatype js_value =
    Undefined
  | Null
  | JSBoolean bool
  | JSNumber int
  | JSString string
  | JSFunction nat
  | JSArray
  | JSObject item

fun truthy :: "js_value \<Rightarrow> bool" where
  "truthy Undefined = False"
| "truthy Null = False"
| "truthy (JSBoolean b) = b"
| "truthy (JSNumber n) = (n \<noteq> 0)"
| "truthy (JSString s) = (s \<noteq> [])"
| "truthy (JSFunction f) = True"
| "truthy JSArray = True"
| "truthy (JSObject i) = True"

fun js_class :: "js_value \<Rightarrow> string" where
  "js_class Undefined = ''Undefined''"
| "js_class Null = ''Null''"
| "js_class (JSBoolean b) = ''Boolean''"
| "js_class (JSNumber n) = ''Number''"
| "js_class (JSString s) = ''String''"
| "js_class (JSFunction f) = ''Function''"
| "js_class JSArray = ''Array''"
| "js_class (JSObject i) = ''Object''"

text \<open>
  Modelled from the spec: \<open>isType\<close> of \<open>lib/utils.js\<close> is not among the sources. The
  spec describes its two uses as "removing a non-record" and "callback-is-a-function";
  the model is the class test those words describe: a value has the named class, and
  \<open>undefined\<close> and \<open>null\<close> have none.
\<close>

definition isType :: "string \<Rightarrow> js_value \<Rightarrow> bool" where
  "isType type obj = (obj \<noteq> Undefined \<and> obj \<noteq> Null \<and> js_class obj = type)"

section \<open>Actions\<close>

datatype action =
    ADD_ITEM string string int int
  | REMOVE_ITEM int int
  | SELECT_ITEM int bool
  | ADD_OPTION string string int int bool
  | FILTER_OPTIONS "optionR list"
  | ACTIVATE_OPTIONS
  | ADD_GROUP string int bool bool

text \<open>
  Modelled from the spec: the action creators of \<open>actions/index\<close> are not among the
  sources. The spec: "pure, side-effect-free builders; each returns a typed action
  record"; "no validation performed here". The argument order is the one of their
  call sites in \<open>choices.js\<close>. The suffix \<open>A\<close> keeps them apart from the methods of
  the same name.
\<close>

definition addItemA :: "string \<Rightarrow> string \<Rightarrow> int \<Rightarrow> int \<Rightarrow> action" where
  "addItemA value label ident optionId = ADD_ITEM value label ident optionId"

definition removeItemA :: "int \<Rightarrow> int \<Rightarrow> action" where
  "removeItemA ident optionId = REMOVE_ITEM ident optionId"

definition selectItemA :: "int \<Rightarrow> bool \<Rightarrow> action" where
  "selectItemA ident selected = SELECT_ITEM ident selected"

definition addOptionA :: "string \<Rightarrow> string \<Rightarrow> int \<Rightarrow> int \<Rightarrow> bool \<Rightarrow> action" where
  "addOptionA value label ident groupId disabled = ADD_OPTION value label ident groupId disabled"

definition filterOptionsA :: "optionR list \<Rightarrow> action" where
  "filterOptionsA results = FILTER_OPTIONS results"

definition activateOptionsA :: action where
  "activateOptionsA = ACTIVATE_OPTIONS"

definition addGroupA :: "string \<Rightarrow> int \<Rightarrow> bool \<Rightarrow> bool \<Rightarrow> action" where
  "addGroupA value ident active disabled = ADD_GROUP value ident active disabled"

section \<open>Reducers\<close>

text \<open>
  The renderer compares collections by reference, so a reducer's result says whether it
  is the collection it was given (\<open>Same\<close>) or a new array (\<open>Fresh\<close>).
\<close>

datatype 'a reduced = Same | Fresh "'a list"

text \<open>
  Modelled from the spec: the items reducer of \<open>store/\<close> is not among the sources. The
  spec: "addItem appends a new active, unselected item with the given
  value/label/generated id/optionId. removeItem(id, optionId) sets active=false on the
  matching item. selectItem(id, selected) sets selected on the matching item, leaving
  all others untouched"; "every mutation returns a new ordered sequence"; "unknown
  action kinds are no-ops (identity)".
\<close>

fun items_reducer :: "item list \<Rightarrow> action \<Rightarrow> item reduced" where
  "items_reducer state (ADD_ITEM value label ident optionId) =
     Fresh (state @ [\<lparr>item_id = ident, item_value = value, item_label = label,
                      item_optionId = optionId, item_active = True, item_selected = False\<rparr>])"
| "items_reducer state (REMOVE_ITEM ident optionId) =
     Fresh (map (\<lambda>i. if item_id i = ident then i\<lparr>item_active := False\<rparr> else i) state)"
| "items_reducer state (SELECT_ITEM ident selected) =
     Fresh (map (\<lambda>i. if item_id i = ident then i\<lparr>item_selected := selected\<rparr> else i) state)"
| "items_reducer state _ = Same"

text \<open>
  Modelled from the spec: the options reducer of \<open>store/\<close> is not among the sources. The
  spec: "addOption appends a new option"; "all options are active by default";
  "filterOptions(results) sets active=true only for options present in the ranked result
  list (in the search's order) and active=false for the rest", so that
  "getOptionsFilteredByActive() returns exactly the ids in subset, in the given order";
  "activateOptions() sets active=true for all non-disabled options"; an option's
  "selected" is "true once the option has produced a corresponding Item", and "if the
  action was a remove carrying a valid optionId" the matching option is unselected.
  After a filter the options of the result come first, in the order of the result, and
  the others follow, inactive.
\<close>

fun options_reducer :: "optionR list \<Rightarrow> action \<Rightarrow> optionR reduced" where
  "options_reducer state (ADD_OPTION value label ident groupId disabled) =
     Fresh (state @ [\<lparr>opt_id = ident, opt_value = value, opt_label = label,
                      opt_groupId = groupId, opt_disabled = disabled,
                      opt_selected = False, opt_active = True\<rparr>])"
| "options_reducer state (ADD_ITEM value label ident optionId) =
     (if optionId \<noteq> -1
      then Fresh (map (\<lambda>p. if opt_id p = optionId then p\<lparr>opt_selected := True\<rparr> else p) state)
      else Same)"
| "options_reducer state (REMOVE_ITEM ident optionId) =
     (if optionId \<noteq> -1
      then Fresh (map (\<lambda>p. if opt_id p = optionId then p\<lparr>opt_selected := False\<rparr> else p) state)
      else Same)"
| "options_reducer state (FILTER_OPTIONS results) =
     Fresh (concat (map (\<lambda>r. map (\<lambda>p. p\<lparr>opt_active := True\<rparr>) (filter (\<lambda>p. opt_id p = r) state))
                      (remdups (map opt_id results)))
            @ map (\<lambda>p. p\<lparr>opt_active := False\<rparr>)
                (filter (\<lambda>p. opt_id p \<notin> set (map opt_id results)) state))"
| "options_reducer state ACTIVATE_OPTIONS =
     Fresh (map (\<lambda>p. if opt_disabled p then p else p\<lparr>opt_active := True\<rparr>) state)"
| "options_reducer state _ = Same"

text \<open>
  Modelled from the spec: the groups reducer of \<open>store/\<close> is not among the sources. The
  spec: "addGroup appends a new group with a value (label), disabled flag, and an active
  flag".
\<close>

fun groups_reducer :: "group list \<Rightarrow> action \<Rightarrow> group reduced" where
  "groups_reducer state (ADD_GROUP value ident active disabled) =
     Fresh (state @ [\<lparr>grp_id = ident, grp_value = value, grp_active = active,
                      grp_disabled = disabled\<rparr>])"
| "groups_reducer state _ = Same"

section \<open>Store\<close>

text \<open>
  Object identity is explicit: every collection and every state tree carries the address
  it was allocated at, and the store owns the allocation counter. \<open>dispatched\<close> is the
  history of the actions the store has reduced; the program does not read it.
\<close>

record state_tree =
  tree_ref :: nat
  st_items :: "item list"
  items_ref :: nat
  st_options :: "optionR list"
  options_ref :: nat
  st_groups :: "group list"
  groups_ref :: nat

record store_t =
  state :: state_tree
  next_ref :: nat
  dispatched :: "action list"

definition place :: "'a reduced \<Rightarrow> 'a list \<Rightarrow> nat \<Rightarrow> nat \<Rightarrow> 'a list \<times> nat \<times> nat" where
  "place r old old_ref n =
     (case r of Same \<Rightarrow> (old, old_ref, n) | Fresh new \<Rightarrow> (new, n, Suc n))"

text \<open>
  Modelled from the spec: \<open>Store\<close> (\<open>store/index.js\<close>) is not among the sources. The spec:
  "dispatch(action) applies the action to the relevant sub-collection(s), replaces the
  combined state tree"; the notification of the subscriber is \<open>dispatch\<close> below, on the
  widget.
\<close>

definition reduce :: "action \<Rightarrow> store_t \<Rightarrow> store_t" where
  "reduce a s =
     (let t = state s;
          (is, ir, n1) = place (items_reducer (st_items t) a) (st_items t) (items_ref t) (next_ref s);
          (os, or, n2) = place (options_reducer (st_options t) a) (st_options t) (options_ref t) n1;
          (gs, gr, n3) = place (groups_reducer (st_groups t) a) (st_groups t) (groups_ref t) n2
      in \<lparr>state = \<lparr>tree_ref = n3, st_items = is, items_ref = ir, st_options = os,
                    options_ref = or, st_groups = gs, groups_ref = gr\<rparr>,
          next_ref = Suc n3,
          dispatched = dispatched s @ [a]\<rparr>)"

text \<open>
  Modelled from the spec: the selectors of \<open>Store\<close> are not among the sources. The spec:
  "getItems, getItemsFilteredByActive (active==true), getItemsReducedToValues (active
  items' value in insertion order), getOptions, getOptionsFilteredByActive,
  getOptionsFilteredBySelectable (active && !disabled && !selected),
  getGroupsFilteredByActive"; "getState() returns the current immutable snapshot (same
  object instance until next dispatch)". \<open>getOptionsFiltedBySelectable\<close> is the name
  \<open>choices.js\<close> calls.
\<close>

definition getState :: "store_t \<Rightarrow> state_tree" where
  "getState s = state s"

definition getItems :: "store_t \<Rightarrow> item list" where
  "getItems s = st_items (state s)"

definition getItemsFilteredByActive :: "store_t \<Rightarrow> item list" where
  "getItemsFilteredByActive s = filter item_active (st_items (state s))"

definition getItemsReducedToValues :: "store_t \<Rightarrow> string list" where
  "getItemsReducedToValues s = map item_value (filter item_active (st_items (state s)))"

definition getOptions :: "store_t \<Rightarrow> optionR list" where
  "getOptions s = st_options (state s)"

definition getOptionsFilteredByActive :: "store_t \<Rightarrow> optionR list" where
  "getOptionsFilteredByActive s = filter opt_active (st_options (state s))"

definition getOptionsFiltedBySelectable :: "store_t \<Rightarrow> optionR list" where
  "getOptionsFiltedBySelectable s =
     filter (\<lambda>p. opt_active p \<and> \<not> opt_disabled p \<and> \<not> opt_selected p) (st_options (state s))"

definition getGroupsFilteredByActive :: "store_t \<Rightarrow> group list" where
  "getGroupsFilteredByActive s = filter grp_active (st_groups (state s))"

section \<open>The widget\<close>

subsection \<open>Configuration, the underlying control, the rendered nodes\<close>

text \<open>
  \<open>config\<close> is \<open>this.options\<close>, with the fields the modelled methods read.
  \<open>prependValue\<close> and \<open>appendValue\<close> are \<open>false\<close> (here \<open>None\<close>) or a string.
\<close>

record config =
  config_items :: "string list"
  delimiter :: string
  prependValue :: "string option"
  appendValue :: "string option"
  allowSearch :: bool
  callbackOnAddItem :: js_value
  callbackOnRemoveItem :: js_value

text \<open>
  The underlying control: its type, the value string a text control holds, and for a
  select its children, the native \<open>OPTION\<close> and \<open>OPTGROUP\<close> elements, in tree order.
  \<open>no_parent_disabled\<close> is \<open>option.parentNode.disabled\<close>; \<open>no_selected\<close> is the
  selectedness of the option.
\<close>

record native_option =
  no_value :: string
  no_innerHTML :: string
  no_disabled :: bool
  no_parent_disabled :: bool
  no_selected :: bool

record native_optgroup =
  og_label :: string
  og_disabled :: bool
  og_options :: "native_option list"

datatype native_child =
    NativeOption native_option
  | NativeOptgroup native_optgroup

record element =
  el_type :: string
  el_value :: string
  el_children :: "native_child list"

text \<open>
  \<open>passedElement.options\<close> (every option of the select, in tree order) and
  \<open>passedElement.getElementsByTagName('OPTGROUP')\<close>.
\<close>

fun child_options :: "native_child \<Rightarrow> native_option list" where
  "child_options (NativeOption p) = [p]"
| "child_options (NativeOptgroup g) = og_options g"

definition el_options :: "element \<Rightarrow> native_option list" where
  "el_options el = concat (map child_options (el_children el))"

fun child_optgroups :: "native_child \<Rightarrow> native_optgroup list" where
  "child_optgroups (NativeOption p) = []"
| "child_optgroups (NativeOptgroup g) = [g]"

definition el_optgroups :: "element \<Rightarrow> native_optgroup list" where
  "el_optgroups el = concat (map child_optgroups (el_children el))"

text \<open>
  The \<open>value\<close> attribute of the control, as the DOM defines it. A select holds no
  string of its own: reading \<open>value\<close> gives the value of the first selected option, or
  the empty string; assigning to it unselects every option and then selects the first
  option whose value is the string assigned, if there is one. A text input keeps the
  string assigned with every line feed and carriage return removed. (The constructor
  refuses every other type of control; the model treats them as text.)
\<close>

definition is_select :: "element \<Rightarrow> bool" where
  "is_select el = (el_type el = ''select-one'' \<or> el_type el = ''select-multiple'')"

definition get_value :: "element \<Rightarrow> string" where
  "get_value el =
     (if is_select el
      then (case filter no_selected (el_options el) of [] \<Rightarrow> [] | p # _ \<Rightarrow> no_value p)
      else el_value el)"

definition strip_newlines :: "string \<Rightarrow> string" where
  "strip_newlines s = filter (\<lambda>c. c \<noteq> CHR 0x0A \<and> c \<noteq> CHR 0x0D) s"

fun mark_options :: "string \<Rightarrow> bool \<Rightarrow> native_option list \<Rightarrow> native_option list" where
  "mark_options v found [] = []"
| "mark_options v found (p # ps) =
     p\<lparr>no_selected := (\<not> found \<and> no_value p = v)\<rparr> # mark_options v (found \<or> no_value p = v) ps"

fun mark_children :: "string \<Rightarrow> bool \<Rightarrow> native_child list \<Rightarrow> native_child list" where
  "mark_children v found [] = []"
| "mark_children v found (NativeOption p # cs) =
     NativeOption (p\<lparr>no_selected := (\<not> found \<and> no_value p = v)\<rparr>)
       # mark_children v (found \<or> no_value p = v) cs"
| "mark_children v found (NativeOptgroup g # cs) =
     NativeOptgroup (g\<lparr>og_options := mark_options v found (og_options g)\<rparr>)
       # mark_children v (found \<or> v \<in> set (map no_value (og_options g))) cs"

definition set_value :: "string \<Rightarrow> element \<Rightarrow> element" where
  "set_value v el =
     (if is_select el
      then el\<lparr>el_children := mark_children v False (el_children el)\<rparr>
      else el\<lparr>el_value := strip_newlines v\<rparr>)"

text \<open>
  The dropdown holds the nodes the templates \<open>option\<close>, \<open>optgroup\<close> and \<open>notice\<close> build.
  An option element carries the record it was built from (its \<open>data-id\<close>,
  \<open>data-value\<close>, and \<open>data-option-selectable\<close> exactly when the record is not disabled)
  and whether its class list holds \<open>highlightedState\<close>.
\<close>

record option_el =
  el_option :: optionR
  highlighted :: bool

datatype node =
    OptionNode option_el
  | GroupNode group "option_el list"
  | NoticeNode string

datatype error = TypeError

definition bindE :: "'e + 'a \<Rightarrow> ('a \<Rightarrow> 'e + 'b) \<Rightarrow> 'e + 'b" where
  "bindE m f = (case m of Inl e \<Rightarrow> Inl e | Inr a \<Rightarrow> f a)"

fun forEachE :: "'a list \<Rightarrow> ('a \<Rightarrow> 's \<Rightarrow> 'e + 's) \<Rightarrow> 's \<Rightarrow> 'e + 's" where
  "forEachE [] f s = Inr s"
| "forEachE (x # xs) f s = bindE (f x s) (forEachE xs f)"

text \<open>
  A pending timer of \<open>setTimeout\<close>: the debounced function that owns it and the time
  (in milliseconds) at which it is due.
\<close>

record timer =
  owner :: nat
  due :: nat

text \<open>
  \<open>callbacks_run\<close> records every call of a lifecycle callback with its arguments; a
  callback is opaque and the model gives it no other effect. \<open>console\<close> is the
  diagnostic channel (\<open>console.error\<close>). \<open>subscribed\<close> says whether \<open>init\<close> has
  registered \<open>render\<close> with the store. \<open>prevState\<close> and \<open>currentState\<close> are \<open>None\<close>
  while they are the empty object the constructor assigns. \<open>isSearching\<close> is
  \<open>undefined\<close> before \<open>generateInput\<close> sets it; both tests the source makes
  (\<open>!== true\<close> and truthiness) treat \<open>undefined\<close> as \<open>false\<close>, so it is a \<open>bool\<close>.
  The dropdown exists exactly for the two select types.
\<close>

record widget =
  options :: config
  store :: store_t
  subscribed :: bool
  currentState :: "state_tree option"
  prevState :: "state_tree option"
  passedElement :: element
  highlightPosition :: int
  isSearching :: bool
  dropdown :: "node list"
  listEl :: "item list"
  input_value :: string
  input_focused :: bool
  console :: "string list"
  callbacks_run :: "(nat \<times> js_value list) list"
  timers :: "timer list"
  next_debounced :: nat

definition console_error :: "string \<Rightarrow> widget \<Rightarrow> widget" where
  "console_error msg w = w\<lparr>console := console w @ [msg]\<rparr>"

definition call :: "js_value \<Rightarrow> js_value list \<Rightarrow> widget \<Rightarrow> widget" where
  "call callback args w =
     (case callback of
        JSFunction f \<Rightarrow> w\<lparr>callbacks_run := callbacks_run w @ [(f, args)]\<rparr>
      | _ \<Rightarrow> w)"

subsection \<open>JavaScript library functions\<close>

text \<open>\<open>Array.prototype.join\<close> on an array of strings.\<close>

fun js_join :: "string \<Rightarrow> string list \<Rightarrow> string" where
  "js_join d [] = []"
| "js_join d [x] = x"
| "js_join d (x # y # ys) = x @ d @ js_join d (y # ys)"

text \<open>
  \<open>String.prototype.trim\<close>. A string is its UTF-8 bytes, so the white space and line
  terminators of JavaScript are byte sequences: tab, line feed, vertical tab, form feed,
  carriage return, space, and the encodings of U+00A0, U+1680, U+2000 to U+200A, U+2028,
  U+2029, U+202F, U+205F, U+3000 and U+FEFF. In well-formed UTF-8 none of them ends or
  begins inside another character, so they can be taken off either end by their bytes.
\<close>

definition white_space :: "string list" where
  "white_space =
     [[CHR 0x09], [CHR 0x0A], [CHR 0x0B], [CHR 0x0C], [CHR 0x0D], [CHR 0x20],
      [CHR 0xC2, CHR 0xA0],
      [CHR 0xE1, CHR 0x9A, CHR 0x80],
      [CHR 0xE2, CHR 0x80, CHR 0x80], [CHR 0xE2, CHR 0x80, CHR 0x81],
      [CHR 0xE2, CHR 0x80, CHR 0x82], [CHR 0xE2, CHR 0x80, CHR 0x83],
      [CHR 0xE2, CHR 0x80, CHR 0x84], [CHR 0xE2, CHR 0x80, CHR 0x85],
      [CHR 0xE2, CHR 0x80, CHR 0x86], [CHR 0xE2, CHR 0x80, CHR 0x87],
      [CHR 0xE2, CHR 0x80, CHR 0x88], [CHR 0xE2, CHR 0x80, CHR 0x89],
      [CHR 0xE2, CHR 0x80, CHR 0x8A],
      [CHR 0xE2, CHR 0x80, CHR 0xA8], [CHR 0xE2, CHR 0x80, CHR 0xA9],
      [CHR 0xE2, CHR 0x80, CHR 0xAF],
      [CHR 0xE2, CHR 0x81, CHR 0x9F],
      [CHR 0xE3, CHR 0x80, CHR 0x80],
      [CHR 0xEF, CHR 0xBB, CHR 0xBF]]"

text \<open>Taking the sequences of \<open>seqs\<close> off the front of a string, as long as one is there.\<close>

function strip_leading :: "string list \<Rightarrow> string \<Rightarrow> string" where
  "strip_leading seqs s =
     (case filter (\<lambda>q. q \<noteq> [] \<and> take (length q) s = q) seqs of
        [] \<Rightarrow> s
      | q # _ \<Rightarrow> strip_leading seqs (drop (length q) s))"
  by pat_completeness auto
termination
proof (relation "measure (\<lambda>(seqs, s). length s)")
  show "wf (measure (\<lambda>(seqs, s). length s))" by simp
next
  fix seqs :: "string list" and s q :: string and qs
  assume "filter (\<lambda>q. q \<noteq> [] \<and> take (length q) s = q) seqs = q # qs"
  then have "q \<in> set (filter (\<lambda>q. q \<noteq> [] \<and> take (length q) s = q) seqs)" by simp
  then have q: "q \<noteq> []" "take (length q) s = q" by simp_all
  then have "s \<noteq> []" by auto
  with q(1) show "((seqs, drop (length q) s), (seqs, s)) \<in> measure (\<lambda>(seqs, s). length s)"
    by simp
qed

definition js_trim :: "string \<Rightarrow> string" where
  "js_trim s = rev (strip_leading (map rev white_space) (rev (strip_leading white_space s)))"

text \<open>An array read \<open>xs[i]\<close>: \<open>undefined\<close> (\<open>None\<close>) outside the array.\<close>

definition js_nth :: "'a list \<Rightarrow> int \<Rightarrow> 'a option" where
  "js_nth xs i = (if 0 \<le> i \<and> i < int (length xs) then Some (xs ! nat i) else None)"

fun indexOf :: "'a list \<Rightarrow> 'a \<Rightarrow> int" where
  "indexOf [] x = -1"
| "indexOf (y # ys) x = (if y = x then 0 else (let k = indexOf ys x in if k < 0 then -1 else k + 1))"

subsection \<open>Document order in the dropdown\<close>

text \<open>
  \<open>querySelectorAll\<close> returns elements in document order. An option element is named by
  its position among the option elements of the dropdown in that order.
\<close>

fun node_els :: "node \<Rightarrow> option_el list" where
  "node_els (OptionNode e) = [e]"
| "node_els (GroupNode g es) = es"
| "node_els (NoticeNode s) = []"

definition option_els :: "node list \<Rightarrow> option_el list" where
  "option_els ns = concat (map node_els ns)"

fun upd_els :: "(nat \<Rightarrow> option_el \<Rightarrow> option_el) \<Rightarrow> nat \<Rightarrow> option_el list \<Rightarrow> option_el list" where
  "upd_els f k [] = []"
| "upd_els f k (e # es) = f k e # upd_els f (Suc k) es"

fun upd_nodes :: "(nat \<Rightarrow> option_el \<Rightarrow> option_el) \<Rightarrow> nat \<Rightarrow> node list \<Rightarrow> node list" where
  "upd_nodes f k [] = []"
| "upd_nodes f k (OptionNode e # ns) = OptionNode (f k e) # upd_nodes f (Suc k) ns"
| "upd_nodes f k (GroupNode g es # ns) = GroupNode g (upd_els f k es) # upd_nodes f (k + length es) ns"
| "upd_nodes f k (NoticeNode s # ns) = NoticeNode s # upd_nodes f k ns"

text \<open>The positions of the elements matching \<open>[data-option-selectable]\<close>.\<close>

definition selectable_positions :: "node list \<Rightarrow> nat list" where
  "selectable_positions ns =
     filter (\<lambda>i. \<not> opt_disabled (el_option (option_els ns ! i))) [0..<length (option_els ns)]"

text \<open>The positions of the elements matching \<open>.is-highlighted\<close>.\<close>

definition highlighted_positions :: "node list \<Rightarrow> nat list" where
  "highlighted_positions ns =
     filter (\<lambda>i. highlighted (option_els ns ! i)) [0..<length (option_els ns)]"

definition classList_remove_highlighted :: "node list \<Rightarrow> node list" where
  "classList_remove_highlighted ns = upd_nodes (\<lambda>i e. e\<lparr>highlighted := False\<rparr>) 0 ns"

definition classList_add_highlighted :: "nat \<Rightarrow> node list \<Rightarrow> node list" where
  "classList_add_highlighted p ns =
     upd_nodes (\<lambda>i e. if i = p then e\<lparr>highlighted := True\<rparr> else e) 0 ns"

subsection \<open>highlightOption\<close>

text \<open>
  \<open>el\<close> is the position of the element passed, \<open>None\<close> when the method is called
  without an argument. Adding a class to \<open>undefined\<close> throws a \<open>TypeError\<close>. The
  method is called only where the dropdown exists.
\<close>

definition highlightOption :: "nat option \<Rightarrow> widget \<Rightarrow> error + widget" where
  "highlightOption el w =
     (let opts = selectable_positions (dropdown w) in
      if length opts \<noteq> 0 then
        (let cleared = classList_remove_highlighted (dropdown w) in
         case el of
           Some p \<Rightarrow>
             Inr (w\<lparr>dropdown := classList_add_highlighted p cleared,
                    highlightPosition := indexOf opts p\<rparr>)
         | None \<Rightarrow>
             (let el1 = (if int (length opts) > highlightPosition w
                         then js_nth opts (highlightPosition w)
                         else js_nth opts (int (length opts) - 1));
                  el2 = (case el1 of None \<Rightarrow> js_nth opts 0 | Some p \<Rightarrow> Some p)
              in case el2 of
                   None \<Rightarrow> Inl TypeError
                 | Some p \<Rightarrow> Inr (w\<lparr>dropdown := classList_add_highlighted p cleared\<rparr>)))
      else Inr w)"

subsection \<open>Rendering\<close>

definition option_template :: "optionR \<Rightarrow> option_el" where
  "option_template data = \<lparr>el_option = data, highlighted = False\<rparr>"

definition renderGroups :: "group list \<Rightarrow> optionR list \<Rightarrow> node list \<Rightarrow> node list" where
  "renderGroups groups opts fragment =
     fold (\<lambda>group frag.
             (let groupOptions = filter (\<lambda>p. opt_groupId p = grp_id group) opts in
              if length groupOptions \<ge> 1
              then frag @ [GroupNode group (map option_template groupOptions)]
              else frag))
          groups fragment"

definition renderOptions :: "widget \<Rightarrow> optionR list \<Rightarrow> node list \<Rightarrow> node list" where
  "renderOptions w opts fragment =
     fold (\<lambda>p frag.
             if el_type (passedElement w) = ''select-one'' then frag @ [OptionNode (option_template p)]
             else if \<not> opt_selected p then frag @ [OptionNode (option_template p)]
             else frag)
          opts fragment"

definition renderItems :: "item list \<Rightarrow> item list \<Rightarrow> widget \<Rightarrow> widget" where
  "renderItems items fragment w =
     (let itemsFiltered = getItemsReducedToValues (store w);
          w1 = w\<lparr>passedElement := set_value (js_join (delimiter (options w)) itemsFiltered) (passedElement w)\<rparr>;
          w2 = w1\<lparr>listEl := []\<rparr>;
          filled = fold (\<lambda>i frag. frag @ [i]) items fragment
      in w2\<lparr>listEl := listEl w2 @ filled\<rparr>)"

text \<open>
  \<open>a !== b\<close> on one member of the current state and of the previous one: the empty
  object of the constructor has no member, and \<open>undefined\<close> differs from every array.
\<close>

definition differs :: "(state_tree \<Rightarrow> nat) \<Rightarrow> state_tree \<Rightarrow> state_tree option \<Rightarrow> bool" where
  "differs ref cur prev = (case prev of None \<Rightarrow> True | Some p \<Rightarrow> ref cur \<noteq> ref p)"

text \<open>
  The block of \<open>render\<close> under the comment \<open>OPTIONS\<close>, for a dirty region:
  \<open>optionListFragment\<close> is the fragment as the case split on groups and options fills
  it, \<open>render_options_region\<close> the block.
\<close>

definition optionListFragment :: "widget \<Rightarrow> node list" where
  "optionListFragment w =
     (let activeGroups = getGroupsFilteredByActive (store w);
          activeOptions = getOptionsFilteredByActive (store w)
      in if length activeGroups \<ge> 1 \<and> isSearching w \<noteq> True
         then renderGroups activeGroups activeOptions []
         else if length activeOptions \<ge> 1
         then renderOptions w activeOptions []
         else [])"

definition render_options_region :: "widget \<Rightarrow> error + widget" where
  "render_options_region w =
     (if el_type (passedElement w) = ''select-multiple'' \<or> el_type (passedElement w) = ''select-one'' then
        (let fragment = optionListFragment w
         in if length fragment \<noteq> 0
            then highlightOption None (w\<lparr>dropdown := [] @ fragment\<rparr>)
            else Inr (w\<lparr>dropdown := [] @ [NoticeNode (if isSearching w then ''No results found''
                                                       else ''No options to select'')]\<rparr>))
      else Inr w)"

definition render :: "widget \<Rightarrow> error + widget" where
  "render w0 =
     (let cur = getState (store w0);
          w = w0\<lparr>currentState := Some cur\<rparr>
      in if differs tree_ref cur (prevState w) then
           bindE (if differs options_ref cur (prevState w) \<or> differs groups_ref cur (prevState w)
                  then render_options_region w else Inr w)
             (\<lambda>w1. let w2 = (if differs items_ref cur (prevState w1)
                              then renderItems (getItemsFilteredByActive (store w1)) [] w1
                              else w1)
                    in Inr (w2\<lparr>prevState := currentState w2\<rparr>))
         else Inr w)"

subsection \<open>Store dispatch with its subscriber\<close>

text \<open>
  Modelled from the spec: \<open>Store.dispatch\<close> and \<open>Store.subscribe\<close> are not among the
  sources. The spec: dispatch "replaces the combined state tree, then synchronously
  notifies every subscriber"; "the single render subscriber is the only one registered".
\<close>

definition dispatch :: "action \<Rightarrow> widget \<Rightarrow> error + widget" where
  "dispatch a w =
     (let w1 = w\<lparr>store := reduce a (store w)\<rparr>
      in if subscribed w1 then render w1 else Inr w1)"

subsection \<open>Adding and removing items\<close>

definition removeItem :: "js_value \<Rightarrow> js_value \<Rightarrow> widget \<Rightarrow> error + widget" where
  "removeItem item callback0 w =
     (let callback = (if callback0 = Undefined then callbackOnRemoveItem (options w) else callback0) in
      if \<not> truthy item \<or> \<not> isType ''Object'' item
      then Inr (console_error ''removeItem: No item object was passed to be removed'' w)
      else (case item of
              JSObject it \<Rightarrow>
                bindE (dispatch (removeItemA (item_id it) (item_optionId it)) w)
                  (\<lambda>w1. if truthy callback
                         then Inr (if \<not> isType ''Function'' callback
                                   then console_error ''callbackOnRemoveItem: Callback is not a function'' w1
                                   else w1)
                         else Inr w1)
            | _ \<Rightarrow> Inr w))"

definition removeItemsByValue :: "js_value \<Rightarrow> widget \<Rightarrow> error + widget" where
  "removeItemsByValue value w =
     Inr (if \<not> truthy value \<or> \<not> isType ''String'' value
          then console_error ''removeItemsByValue: No value was passed to be removed'' w
          else w)"

definition removeActiveItems :: "int \<Rightarrow> widget \<Rightarrow> error + widget" where
  "removeActiveItems excludedId w =
     (let items = getItemsFilteredByActive (store w) in
      forEachE items
        (\<lambda>i w'. if item_active i \<and> excludedId \<noteq> item_id i
                 then removeItem (JSObject i) Undefined w'
                 else Inr w')
        w)"

definition addItem :: "string \<Rightarrow> string option \<Rightarrow> int option \<Rightarrow> js_value \<Rightarrow> widget \<Rightarrow> error + widget" where
  "addItem value label optionId0 callback0 w =
     (let optionId = (case optionId0 of None \<Rightarrow> -1 | Some k \<Rightarrow> k);
          callback = (if callback0 = Undefined then callbackOnAddItem (options w) else callback0);
          items = getItems (store w);
          passedValue = js_trim value;
          passedLabel = (case label of None \<Rightarrow> passedValue
                         | Some l \<Rightarrow> if l \<noteq> [] then l else passedValue);
          passedOptionId = (if optionId \<noteq> 0 then optionId else -1);
          passedValue1 = (case prependValue (options w) of None \<Rightarrow> passedValue
                          | Some p \<Rightarrow> if p \<noteq> [] then p @ passedValue else passedValue);
          passedValue2 = (case appendValue (options w) of None \<Rightarrow> passedValue1
                          | Some p \<Rightarrow> if p \<noteq> [] then passedValue1 @ p else passedValue1);
          ident = int (length items) + 1
      in bindE (dispatch (addItemA passedValue2 passedLabel ident passedOptionId) w)
           (\<lambda>w1. bindE (if el_type (passedElement w1) = ''select-one''
                         then removeActiveItems ident w1 else Inr w1)
              (\<lambda>w2. Inr (if truthy callback
                          then (if isType ''Function'' callback
                                then call callback [JSNumber ident, JSString value] w2
                                else console_error ''callbackOnAddItem: Callback is not a function'' w2)
                          else w2))))"

subsection \<open>Searching: key up and the debounced filter\<close>

text \<open>
  Modelled from the spec: \<open>debounce\<close> of \<open>lib/utils.js\<close> is not among the sources. The
  spec: "only the most recent debounced invocation within the delay window executes;
  earlier scheduled invocations are discarded (cancellation-by-replacement, not explicit
  cancellation tokens)". \<open>debounce\<close> makes a new debounced function, named by a fresh
  number; calling a debounced function discards the pending timer that function owns
  and sets a new one, due after the delay. Time is counted in milliseconds.
\<close>

definition debounce :: "widget \<Rightarrow> nat \<times> widget" where
  "debounce w = (next_debounced w, w\<lparr>next_debounced := Suc (next_debounced w)\<rparr>)"

definition call_debounced :: "nat \<Rightarrow> nat \<Rightarrow> nat \<Rightarrow> widget \<Rightarrow> widget" where
  "call_debounced f wait now w =
     w\<lparr>timers := filter (\<lambda>t. owner t \<noteq> f) (timers w) @ [\<lparr>owner = f, due = now + wait\<rparr>]\<rparr>"

text \<open>
  The function \<open>onKeyUp\<close> passes to \<open>debounce\<close>. \<open>fuse\<close> is the search collaborator
  (\<open>new Fuse(haystack, ...).search(needle)\<close>), a parameter.
\<close>

definition handleFilter_body :: "(optionR list \<Rightarrow> string \<Rightarrow> optionR list) \<Rightarrow> widget \<Rightarrow> error + widget" where
  "handleFilter_body fuse w =
     (if input_value w \<noteq> [] \<and> length (input_value w) \<ge> 1 then
        (let haystack = getOptionsFiltedBySelectable (store w);
             needle = input_value w;
             results = fuse haystack needle
         in dispatch (filterOptionsA results) (w\<lparr>isSearching := True\<rparr>))
      else Inr w)"

text \<open>
  \<open>onKeyUp\<close> at time \<open>now\<close>; \<open>target_is_input\<close> is \<open>e.target === this.input\<close>.
\<close>

definition onKeyUp :: "bool \<Rightarrow> nat \<Rightarrow> widget \<Rightarrow> error + widget" where
  "onKeyUp target_is_input now w =
     (if \<not> target_is_input then Inr w
      else if (el_type (passedElement w) = ''select-multiple'' \<or> el_type (passedElement w) = ''select-one'')
              \<and> allowSearch (options w) then
        (if input_focused w then
           (let opts = getOptions (store w);
                hasUnactiveOptions = list_ex (\<lambda>p. opt_active p \<noteq> True) opts
            in if input_value w \<noteq> [] \<and> length opts \<noteq> 0 then
                 (let (handleFilter, w1) = debounce w
                  in Inr (call_debounced handleFilter 500 now w1))
               else if hasUnactiveOptions then
                 dispatch activateOptionsA (w\<lparr>isSearching := False\<rparr>)
               else Inr w)
         else Inr w)
      else Inr w)"

text \<open>
  The event loop reaching time \<open>now\<close>: the timers due by then leave the queue and run,
  earliest first.
\<close>

definition run_timers :: "(optionR list \<Rightarrow> string \<Rightarrow> optionR list) \<Rightarrow> nat \<Rightarrow> widget \<Rightarrow> error + widget" where
  "run_timers fuse now w =
     (let ready = sort_key due (filter (\<lambda>t. due t \<le> now) (timers w));
          w1 = w\<lparr>timers := filter (\<lambda>t. \<not> due t \<le> now) (timers w)\<rparr>
      in forEachE ready (\<lambda>t. handleFilter_body fuse) w1)"

subsection \<open>Construction and initialisation\<close>

text \<open>\<open>String.prototype.split\<close> with a string separator.\<close>

function split_from :: "string \<Rightarrow> string \<Rightarrow> string \<Rightarrow> string list" where
  "split_from d acc [] = [rev acc]"
| "split_from d acc (c # cs) =
     (if d \<noteq> [] \<and> take (length d) (c # cs) = d
      then rev acc # split_from d [] (drop (length d) (c # cs))
      else split_from d (c # acc) cs)"
  by pat_completeness auto
termination
  by (relation "measure (\<lambda>(d, acc, s). length s)") auto

definition js_split :: "string \<Rightarrow> string \<Rightarrow> string list" where
  "js_split d s = (if d = [] then map (\<lambda>c. [c]) s else split_from d [] s)"

text \<open>
  Modelled from the spec: the constructor of \<open>Store\<close> is not among the sources. The spec:
  the store "holds the combined state tree {items, options, groups}"; the three
  collections start empty, each an object of its own.
\<close>

definition new_Store :: store_t where
  "new_Store =
     \<lparr>state = \<lparr>tree_ref = 0, st_items = [], items_ref = 1, st_options = [], options_ref = 2,
               st_groups = [], groups_ref = 3\<rparr>,
      next_ref = 4,
      dispatched = []\<rparr>"

definition addOption :: "native_option \<Rightarrow> int \<Rightarrow> widget \<Rightarrow> error + widget" where
  "addOption option groupId w =
     (let opts = getOptions (store w);
          ident = int (length opts) + 1;
          value = no_value option;
          label = no_innerHTML option;
          isDisabled = (no_disabled option \<or> no_parent_disabled option)
      in bindE (dispatch (addOptionA value label ident groupId isDisabled) w)
           (\<lambda>w1. if no_selected option \<and> \<not> isDisabled
                  then addItem value (Some label) (Some ident) Undefined w1
                  else Inr w1))"

definition addGroup :: "native_optgroup \<Rightarrow> int \<Rightarrow> bool \<Rightarrow> widget \<Rightarrow> error + widget" where
  "addGroup optgroup ident isFirst w =
     (let groupOptions = og_options optgroup;
          groupId = ident
      in bindE (dispatch (addGroupA (og_label optgroup) groupId True (og_disabled optgroup)) w)
           (forEachE groupOptions (\<lambda>option. addOption option groupId)))"

text \<open>
  In \<open>addGroup\<close> the array \<open>Array.from(...)\<close> is always truthy, so the branch without
  options is never taken. \<open>generateInput\<close> is the part of the method that touches the
  store and the fields above; the construction of the container elements is left out,
  and so are the event listeners and the callback of \<open>init\<close>.
\<close>

definition generateInput :: "string list \<Rightarrow> widget \<Rightarrow> error + widget" where
  "generateInput presetItems w =
     (if el_type (passedElement w) = ''select-multiple'' \<or> el_type (passedElement w) = ''select-one'' then
        (let w1 = w\<lparr>highlightPosition := 0, dropdown := [], isSearching := False\<rparr>;
             passedGroups = el_optgroups (passedElement w)
         in if length passedGroups \<noteq> 0
            then forEachE (zip passedGroups [0..<length passedGroups])
                   (\<lambda>(optgroup, index). addGroup optgroup (int index) (index = 0)) w1
            else forEachE (el_options (passedElement w)) (\<lambda>option. addOption option (-1)) w1)
      else if el_type (passedElement w) = ''text'' then
        forEachE presetItems (\<lambda>value. addItem value None None Undefined) w
      else Inr w)"

definition init :: "string list \<Rightarrow> widget \<Rightarrow> error + widget" where
  "init presetItems w =
     bindE (generateInput presetItems w)
       (\<lambda>w1. render (w1\<lparr>subscribed := True\<rparr>))"

text \<open>
  The constructor, for one element and the merged options. An element of another type
  is reported and left alone.
\<close>

definition Choices :: "element \<Rightarrow> config \<Rightarrow> error + widget" where
  "Choices element cfg =
     (let w = \<lparr>options = cfg, store = new_Store, subscribed = False,
               currentState = None, prevState = None, passedElement = element,
               highlightPosition = 0, isSearching = False, dropdown = [], listEl = [],
               input_value = [], input_focused = False, console = [], callbacks_run = [],
               timers = [], next_debounced = 0\<rparr>;
          presetItems = (if length (config_items cfg) \<noteq> 0 then config_items cfg
                         else if get_value element \<noteq> [] then js_split (delimiter cfg) (get_value element)
                         else []);
          canInit = (el_type element \<in> set [''select-one'', ''select-multiple'', ''text''])
      in if canInit then init presetItems w
         else Inr (console_error ''Choices: Incompatible input passed'' w))"

text \<open>The options the source merges the user's into, and two bare controls.\<close>

definition defaultOptions :: config where
  "defaultOptions =
     \<lparr>config_items = [], delimiter = '','', prependValue = None, appendValue = None,
      allowSearch = True, callbackOnAddItem = JSFunction 0, callbackOnRemoveItem = JSFunction 1\<rparr>"

definition text_input :: "string \<Rightarrow> element" where
  "text_input v = \<lparr>el_type = ''text'', el_value = v, el_children = []\<rparr>"

definition select_element :: "string \<Rightarrow> native_option list \<Rightarrow> element" where
  "select_element ty opts = \<lparr>el_type = ty, el_value = [], el_children = map NativeOption opts\<rparr>"

section \<open>Vocabulary of the statements and example widgets\<close>

text \<open>
  \<open>returns m P\<close>: the call \<open>m\<close> returns normally (it does not throw) and its result
  satisfies \<open>P\<close>.
\<close>

definition returns :: "'e + 'a \<Rightarrow> ('a \<Rightarrow> bool) \<Rightarrow> bool" where
  "returns m P = (case m of Inl e \<Rightarrow> False | Inr a \<Rightarrow> P a)"

text \<open>An index clamped to the bounds of a list of \<open>n\<close> elements.\<close>

definition clamped :: "int \<Rightarrow> nat \<Rightarrow> nat" where
  "clamped hp n = nat (max 0 (min hp (int n - 1)))"

text \<open>The widget over a text input whose value is \<open>a,b\<close>, with the default options.\<close>

definition tags_ab :: widget where
  "tags_ab = projr (Choices (text_input ''a,b'') defaultOptions)"

text \<open>The widget over an empty text input, with the default options.\<close>

definition no_tags :: widget where
  "no_tags = projr (Choices (text_input []) defaultOptions)"

text \<open>
  The ids of a store whose items were all added by \<open>addItem\<close>: \<open>1, 2, ..., n\<close> in
  insertion order.
\<close>

definition ids_in_sequence :: "store_t \<Rightarrow> bool" where
  "ids_in_sequence s = (map item_id (getItems s) = map int [1..<Suc (length (getItems s))])"

text \<open>
  The widget over a single select with the native options \<open>x\<close> (selected) and \<open>y\<close>,
  with the default options.
\<close>

definition pick_xy :: widget where
  "pick_xy = projr (Choices (select_element ''select-one''
       [\<lparr>no_value = ''x'', no_innerHTML = ''X'', no_disabled = False,
         no_parent_disabled = False, no_selected = True\<rparr>,
        \<lparr>no_value = ''y'', no_innerHTML = ''Y'', no_disabled = False,
         no_parent_disabled = False, no_selected = False\<rparr>]) defaultOptions)"

text \<open>
  The single select above in the state in which \<open>dispatch\<close> calls \<open>render\<close>, after the
  action that removes item 1 (of option 1) has been reduced.
\<close>

definition after_unpick :: widget where
  "after_unpick = pick_xy\<lparr>store := reduce (removeItemA 1 1) (store pick_xy)\<rparr>"

text \<open>
  The rendering C4 states, in the words of the spec: grouped if an active group exists
  and the widget is not searching, else flat if an active option exists, else the
  placeholder.
\<close>

definition claimed_dropdown :: "widget \<Rightarrow> node list" where
  "claimed_dropdown w =
     (if getGroupsFilteredByActive (store w) \<noteq> [] \<and> \<not> isSearching w
      then renderGroups (getGroupsFilteredByActive (store w)) (getOptionsFilteredByActive (store w)) []
      else if getOptionsFilteredByActive (store w) \<noteq> []
      then renderOptions w (getOptionsFilteredByActive (store w)) []
      else [NoticeNode (if isSearching w then ''No results found'' else ''No options to select'')])"

text \<open>
  The widget over a multiple select with the one native option \<open>x\<close>, and the state in
  which \<open>dispatch\<close> calls \<open>render\<close> after that option was chosen.
\<close>

definition multi_x :: widget where
  "multi_x = projr (Choices (select_element ''select-multiple''
       [\<lparr>no_value = ''x'', no_innerHTML = ''X'', no_disabled = False,
         no_parent_disabled = False, no_selected = False\<rparr>]) defaultOptions)"

definition all_chosen :: widget where
  "all_chosen = multi_x\<lparr>store := reduce (addItemA ''x'' ''X'' 1 1) (store multi_x)\<rparr>"

text \<open>
  The widget over a multiple select with the native options \<open>x\<close>, \<open>y\<close> (disabled) and
  \<open>z\<close>; the same with the highlight index 7; and the state in which \<open>dispatch\<close> calls
  \<open>render\<close> after the options were activated again, with the highlight index -1.
\<close>

definition three_options :: widget where
  "three_options = projr (Choices (select_element ''select-multiple''
       [\<lparr>no_value = ''x'', no_innerHTML = ''X'', no_disabled = False,
         no_parent_disabled = False, no_selected = False\<rparr>,
        \<lparr>no_value = ''y'', no_innerHTML = ''Y'', no_disabled = True,
         no_parent_disabled = False, no_selected = False\<rparr>,
        \<lparr>no_value = ''z'', no_innerHTML = ''Z'', no_disabled = False,
         no_parent_disabled = False, no_selected = False\<rparr>]) defaultOptions)"

text \<open>
  What \<open>highlightOption()\<close> leaves in the dropdown \<open>dd\<close>, for the selectable positions
  \<open>opts\<close> of the list and the last known highlight index \<open>hp\<close>.
\<close>

definition highlight_restored :: "nat list \<Rightarrow> int \<Rightarrow> node list \<Rightarrow> bool" where
  "highlight_restored opts hp dd =
     ((0 \<le> hp \<and> hp < int (length opts) \<longrightarrow> highlighted_positions dd = [opts ! nat hp])
      \<and> (int (length opts) \<le> hp \<longrightarrow> highlighted_positions dd = [last opts])
      \<and> (hp < 0 \<longrightarrow> js_nth opts hp = None \<and> highlighted_positions dd = [hd opts])
      \<and> selectable_positions dd = opts)"

text \<open>
  The widget over a multiple select whose two native options are both disabled, and the
  state in which \<open>dispatch\<close> calls \<open>render\<close> after its options were activated again.
\<close>

definition only_disabled :: widget where
  "only_disabled = projr (Choices (select_element ''select-multiple''
       [\<lparr>no_value = ''x'', no_innerHTML = ''X'', no_disabled = True,
         no_parent_disabled = False, no_selected = False\<rparr>,
        \<lparr>no_value = ''y'', no_innerHTML = ''Y'', no_disabled = True,
         no_parent_disabled = False, no_selected = False\<rparr>]) defaultOptions)"

definition only_disabled_dirty :: widget where
  "only_disabled_dirty = only_disabled\<lparr>store := reduce activateOptionsA (store only_disabled)\<rparr>"

definition far_highlight :: widget where
  "far_highlight = three_options\<lparr>highlightPosition := 7\<rparr>"

definition reactivated :: widget where
  "reactivated = three_options\<lparr>highlightPosition := -1,
                                store := reduce activateOptionsA (store three_options)\<rparr>"

text \<open>
  \<open>is_item_dispatch\<close>: the action is an add-item or a remove-item action.
  \<open>written v el\<close>: what the control \<open>el\<close> reads as its value once \<open>v\<close> has been assigned
  to it. \<open>synced\<close>: the control reads what it reads once the active items' values,
  joined by the configured delimiter, have been assigned to it. \<open>settled\<close>: the widget is at rest after a render pass that
  \<open>init\<close> or a dispatch triggered: \<open>render\<close> is subscribed, the previous snapshot is the
  store's current state, and the store's allocation counter is past the addresses in
  use.
\<close>

fun is_item_dispatch :: "action \<Rightarrow> bool" where
  "is_item_dispatch (ADD_ITEM value label ident optionId) = True"
| "is_item_dispatch (REMOVE_ITEM ident optionId) = True"
| "is_item_dispatch _ = False"

definition written :: "string \<Rightarrow> element \<Rightarrow> string" where
  "written v el =
     (if is_select el
      then (if v \<in> set (map no_value (el_options el)) then v else [])
      else strip_newlines v)"

definition synced :: "widget \<Rightarrow> bool" where
  "synced w =
     (get_value (passedElement w) =
        written (js_join (delimiter (options w)) (getItemsReducedToValues (store w))) (passedElement w))"

definition refs_allocated :: "store_t \<Rightarrow> bool" where
  "refs_allocated s =
     (tree_ref (state s) < next_ref s \<and> items_ref (state s) < next_ref s
      \<and> options_ref (state s) < next_ref s \<and> groups_ref (state s) < next_ref s)"

definition settled :: "widget \<Rightarrow> bool" where
  "settled w =
     (subscribed w \<and> prevState w = Some (getState (store w)) \<and> refs_allocated (store w))"

text \<open>
  A search that returns the options whose value is the needle; and the multiple select
  with three options while the user types \<open>x\<close> into the focused input.
\<close>

definition exact_match :: "optionR list \<Rightarrow> string \<Rightarrow> optionR list" where
  "exact_match haystack needle = filter (\<lambda>p. opt_value p = needle) haystack"

definition typing_x :: widget where
  "typing_x = three_options\<lparr>input_value := ''x'', input_focused := True\<rparr>"

text \<open>
  The multiple select with three options after the add-item dispatches for \<open>x\<close> and \<open>z\<close>;
  and the widget over an empty text input whose delimiter is a line feed, after the
  add-item dispatches for \<open>a\<close> and \<open>b\<close>.
\<close>

definition x_and_z_chosen :: widget where
  "x_and_z_chosen =
     projr (forEachE [addItemA ''x'' ''X'' 1 1, addItemA ''z'' ''Z'' 2 3] dispatch three_options)"

definition lines_a_b :: widget where
  "lines_a_b =
     projr (bindE (Choices (text_input []) (defaultOptions\<lparr>delimiter := [CHR 0x0A]\<rparr>))
              (forEachE [addItemA ''a'' ''a'' 1 (-1), addItemA ''b'' ''b'' 2 (-1)] dispatch))"

fun is_filter_dispatch :: "action \<Rightarrow> bool" where
  "is_filter_dispatch (FILTER_OPTIONS results) = True"
| "is_filter_dispatch _ = False"

section \<open>Basic facts\<close>

lemma returns_Inr [simp]: "returns (Inr a) P = P a"
  by (simp add: returns_def)

lemma returns_Inl [simp]: "returns (Inl e) P = False"
  by (simp add: returns_def)

lemma bindE_Inr [simp]: "bindE (Inr a) f = f a"
  by (simp add: bindE_def)

lemma bindE_Inl [simp]: "bindE (Inl e) f = Inl e"
  by (simp add: bindE_def)

lemma returns_bindE: "returns (bindE m f) P = returns m (\<lambda>a. returns (f a) P)"
  by (cases m) simp_all

lemma returns_mono: "returns m P \<Longrightarrow> (\<And>a. P a \<Longrightarrow> Q a) \<Longrightarrow> returns m Q"
  by (cases m) simp_all

lemma returns_projr: "returns m P \<Longrightarrow> m = Inr (projr m) \<and> P (projr m)"
  by (cases m) simp_all

text \<open>A loop keeps what each of its rounds keeps.\<close>

lemma forEachE_inv:
  assumes step: "\<And>x s. x \<in> set xs \<Longrightarrow> P s \<Longrightarrow> returns (f x s) P"
    and start: "P s"
  shows "returns (forEachE xs f s) P"
  using assms
proof (induction xs arbitrary: s)
  case Nil
  then show ?case by simp
next
  case (Cons x xs)
  have first: "returns (f x s) P" using Cons.prems by simp
  have rest: "\<And>s'. P s' \<Longrightarrow> returns (forEachE xs f s') P"
    using Cons.IH Cons.prems(1) by simp
  show ?case
    using first rest by (cases "f x s") simp_all
qed

subsection \<open>Reading the value of the control after writing it\<close>

lemma el_type_set_value [simp]: "el_type (set_value v el) = el_type el"
  by (simp add: set_value_def)

lemma is_select_set_value [simp]: "is_select (set_value v el) = is_select el"
  by (simp add: is_select_def)

lemma values_mark_options [simp]: "map no_value (mark_options v found ps) = map no_value ps"
  by (induction ps arbitrary: found) simp_all

lemma mark_options_append:
  "mark_options v found (ps @ qs) =
     mark_options v found ps @ mark_options v (found \<or> v \<in> set (map no_value ps)) qs"
proof (induction ps arbitrary: found)
  case Nil
  then show ?case by simp
next
  case (Cons p ps)
  have "(found \<or> no_value p = v \<or> v \<in> set (map no_value ps)) =
        (found \<or> v \<in> set (map no_value (p # ps)))"
    by auto
  then have "mark_options v ((found \<or> no_value p = v) \<or> v \<in> set (map no_value ps)) qs =
             mark_options v (found \<or> v \<in> set (map no_value (p # ps))) qs"
    by (simp only: disj_assoc)
  then show ?case
    by (simp only: append_Cons mark_options.simps Cons.IH)
qed

lemma options_mark_children:
  "concat (map child_options (mark_children v found cs)) =
     mark_options v found (concat (map child_options cs))"
proof (induction v found cs rule: mark_children.induct)
  case (3 v found g cs)
  then show ?case by (simp add: mark_options_append)
qed simp_all

lemma selected_mark_options_found [simp]: "filter no_selected (mark_options v True ps) = []"
  by (induction ps) simp_all

lemma selected_mark_options:
  "map no_value (filter no_selected (mark_options v found ps)) =
     (if \<not> found \<and> v \<in> set (map no_value ps) then [v] else [])"
proof (induction ps)
  case Nil
  then show ?case by simp
next
  case (Cons p ps)
  then show ?case by (cases found) auto
qed

lemma get_value_set_value: "get_value (set_value v el) = written v el"
proof (cases "is_select el")
  case True
  have "map no_value (filter no_selected (el_options (set_value v el))) =
        (if v \<in> set (map no_value (el_options el)) then [v] else [])"
    using True
    by (simp add: set_value_def el_options_def options_mark_children selected_mark_options)
  then show ?thesis
    using True by (auto simp: get_value_def written_def split: list.splits)
next
  case False
  then show ?thesis by (simp add: get_value_def written_def set_value_def is_select_def)
qed

lemma values_set_value: "map no_value (el_options (set_value u el)) = map no_value (el_options el)"
  by (simp add: set_value_def el_options_def options_mark_children)

lemma written_set_value [simp]: "written v (set_value u el) = written v el"
  by (simp only: written_def is_select_set_value values_set_value)

subsection \<open>highlightOption without an argument never throws\<close>

lemma highlightOption_None:
  "highlightOption None w =
     Inr (if selectable_positions (dropdown w) = [] then w
          else w\<lparr>dropdown := classList_add_highlighted
                  (selectable_positions (dropdown w) !
                     clamped (highlightPosition w) (length (selectable_positions (dropdown w))))
                  (classList_remove_highlighted (dropdown w))\<rparr>)"
proof (cases "selectable_positions (dropdown w) = []")
  case True
  then show ?thesis by (simp add: highlightOption_def)
next
  case False
  then have n: "0 < length (selectable_positions (dropdown w))" by simp
  show ?thesis
  proof (cases "highlightPosition w < 0")
    case True
    with n False show ?thesis
      by (simp add: highlightOption_def Let_def js_nth_def clamped_def)
  next
    case nonneg: False
    show ?thesis
    proof (cases "highlightPosition w < int (length (selectable_positions (dropdown w)))")
      case True
      with n nonneg False show ?thesis
        by (simp add: highlightOption_def Let_def js_nth_def clamped_def min_def max_def)
    next
      case False
      with n nonneg \<open>selectable_positions (dropdown w) \<noteq> []\<close> show ?thesis
        by (simp add: highlightOption_def Let_def js_nth_def clamped_def min_def max_def
            nat_diff_distrib)
    qed
  qed
qed

subsection \<open>What render and dispatch leave alone\<close>

lemma render_total: "render w = Inr (projr (render w))"
  by (simp add: render_def render_options_region_def Let_def highlightOption_None)

lemma render_frame:
  "store (projr (render w)) = store w"
  "options (projr (render w)) = options w"
  "subscribed (projr (render w)) = subscribed w"
  "console (projr (render w)) = console w"
  "callbacks_run (projr (render w)) = callbacks_run w"
  "timers (projr (render w)) = timers w"
  "next_debounced (projr (render w)) = next_debounced w"
  "el_type (passedElement (projr (render w))) = el_type (passedElement w)"
  by (simp_all add: render_def render_options_region_def Let_def highlightOption_None
      renderItems_def)

lemma dispatch_total: "dispatch a w = Inr (projr (dispatch a w))"
  using render_total by (simp add: dispatch_def Let_def)

lemma dispatch_frame:
  "store (projr (dispatch a w)) = reduce a (store w)"
  "options (projr (dispatch a w)) = options w"
  "subscribed (projr (dispatch a w)) = subscribed w"
  "console (projr (dispatch a w)) = console w"
  "callbacks_run (projr (dispatch a w)) = callbacks_run w"
  "timers (projr (dispatch a w)) = timers w"
  "next_debounced (projr (dispatch a w)) = next_debounced w"
  "el_type (passedElement (projr (dispatch a w))) = el_type (passedElement w)"
  by (simp_all add: dispatch_def Let_def render_frame)

lemma dispatched_reduce: "dispatched (reduce a s) = dispatched s @ [a]"
  by (simp add: reduce_def Let_def split: prod.splits)

lemma removeItem_object:
  "removeItem (JSObject it) callback w =
     Inr (let w1 = projr (dispatch (removeItemA (item_id it) (item_optionId it)) w);
              cb = (if callback = Undefined then callbackOnRemoveItem (options w) else callback)
          in if truthy cb \<and> \<not> isType ''Function'' cb
             then console_error ''callbackOnRemoveItem: Callback is not a function'' w1
             else w1)"
proof (cases "dispatch (removeItemA (item_id it) (item_optionId it)) w")
  case (Inl e)
  then show ?thesis
    using dispatch_total [of "removeItemA (item_id it) (item_optionId it)" w] by simp
next
  case (Inr w1)
  then show ?thesis by (simp add: removeItem_def isType_def Let_def)
qed

section \<open>removeItemsByValue\<close>

text \<open>
  C8. For every argument, valid or not, \<open>removeItemsByValue\<close> returns at the
  unconditional \<open>return\<close> that follows its guard, before the removal loop: it dispatches
  no action and the store is the one it was called on.
\<close>

theorem removeItemsByValue_returns_before_loop:
  "returns (removeItemsByValue value w)
     (\<lambda>w'. store w' = store w \<and> dispatched (store w') = dispatched (store w))"
  by (simp add: removeItemsByValue_def console_error_def)

text \<open>On the tags \<open>a,b\<close>, removing by the value \<open>a\<close> leaves both tags active.\<close>

theorem removeItemsByValue_returns_before_loop_witness:
  "returns (removeItemsByValue (JSString ''a'') tags_ab)
     (\<lambda>w'. store w' = store tags_ab \<and> dispatched (store w') = dispatched (store tags_ab))
   \<and> getItemsReducedToValues (store tags_ab) = [''a'', ''b'']"
proof -
  have "getItemsReducedToValues (store tags_ab) = [''a'', ''b'']"
    by code_simp
  then show ?thesis
    using removeItemsByValue_returns_before_loop [of "JSString ''a''" tags_ab] by simp
qed

section \<open>removeItem\<close>



section \<open>The store after removeItem and addItem\<close>

lemma items_reduce:
  "st_items (state (reduce (ADD_ITEM v l i oid) s)) =
     st_items (state s) @ [\<lparr>item_id = i, item_value = v, item_label = l, item_optionId = oid,
                              item_active = True, item_selected = False\<rparr>]"
  "st_items (state (reduce (REMOVE_ITEM i oid) s)) =
     map (\<lambda>x. if item_id x = i then x\<lparr>item_active := False\<rparr> else x) (st_items (state s))"
  by (simp_all add: reduce_def place_def Let_def split: prod.splits reduced.splits)

lemma removeItem_total: "removeItem item callback w = Inr (projr (removeItem item callback w))"
proof (cases "\<exists>it. item = JSObject it")
  case True
  then show ?thesis by (auto simp: removeItem_object)
next
  case False
  then show ?thesis by (cases item) (simp_all add: removeItem_def isType_def)
qed

lemma removeItem_frame:
  "options (projr (removeItem item callback w)) = options w"
  "subscribed (projr (removeItem item callback w)) = subscribed w"
  "callbacks_run (projr (removeItem item callback w)) = callbacks_run w"
  "timers (projr (removeItem item callback w)) = timers w"
  "el_type (passedElement (projr (removeItem item callback w))) = el_type (passedElement w)"
  by (cases item; simp add: removeItem_object Let_def console_error_def dispatch_frame;
      simp add: removeItem_def isType_def console_error_def)+

lemma removeItem_store:
  "store (projr (removeItem (JSObject it) callback w)) =
     reduce (REMOVE_ITEM (item_id it) (item_optionId it)) (store w)"
  by (simp add: removeItem_object Let_def console_error_def dispatch_frame removeItemA_def)

lemma removal_loop:
  "returns (forEachE xs (\<lambda>i w'. if item_active i \<and> ex \<noteq> item_id i
                                  then removeItem (JSObject i) Undefined w' else Inr w') w)
     (\<lambda>w'. store w' = fold reduce (map (\<lambda>i. REMOVE_ITEM (item_id i) (item_optionId i))
                                   (filter (\<lambda>i. item_active i \<and> ex \<noteq> item_id i) xs)) (store w)
          \<and> options w' = options w \<and> subscribed w' = subscribed w
          \<and> callbacks_run w' = callbacks_run w \<and> timers w' = timers w
          \<and> el_type (passedElement w') = el_type (passedElement w))"
proof (induction xs arbitrary: w)
  case Nil
  then show ?case by simp
next
  case (Cons x xs)
  show ?case
  proof (cases "item_active x \<and> ex \<noteq> item_id x")
    case True
    have t: "removeItem (JSObject x) Undefined w = Inr (projr (removeItem (JSObject x) Undefined w))"
      by (rule removeItem_total)
    show ?thesis
      using True Cons.IH [of "projr (removeItem (JSObject x) Undefined w)"]
      by (subst forEachE.simps, simp only: True if_True, subst t)
         (simp add: removeItem_frame removeItem_store)
  next
    case False
    then show ?thesis using Cons.IH [of w] by auto
  qed
qed


lemma removeActiveItems_returns:
  "returns (removeActiveItems ex w)
     (\<lambda>w'. store w' = fold reduce (map (\<lambda>i. REMOVE_ITEM (item_id i) (item_optionId i))
                                   (filter (\<lambda>i. ex \<noteq> item_id i) (getItemsFilteredByActive (store w))))
                           (store w)
          \<and> options w' = options w \<and> subscribed w' = subscribed w
          \<and> callbacks_run w' = callbacks_run w \<and> timers w' = timers w
          \<and> el_type (passedElement w') = el_type (passedElement w))"
proof -
  have f: "filter (\<lambda>i. item_active i \<and> ex \<noteq> item_id i) (getItemsFilteredByActive (store w)) =
           filter (\<lambda>i. ex \<noteq> item_id i) (getItemsFilteredByActive (store w))"
    by (auto simp: getItemsFilteredByActive_def intro: filter_cong)
  show ?thesis
    using removal_loop [of "getItemsFilteredByActive (store w)" ex w]
    by (simp add: removeActiveItems_def Let_def f)
qed

lemma addItem_returns:
  "returns (addItem value label oid cb w)
     (\<lambda>w'. (\<exists>pv pl poid.
              store w' =
                (let ident = int (length (getItems (store w))) + 1;
                     s1 = reduce (ADD_ITEM pv pl ident poid) (store w)
                 in if el_type (passedElement w) = ''select-one''
                    then fold reduce (map (\<lambda>i. REMOVE_ITEM (item_id i) (item_optionId i))
                                        (filter (\<lambda>i. ident \<noteq> item_id i) (getItemsFilteredByActive s1))) s1
                    else s1))
          \<and> options w' = options w \<and> subscribed w' = subscribed w
          \<and> timers w' = timers w
          \<and> el_type (passedElement w') = el_type (passedElement w)
          \<and> callbacks_run w' = callbacks_run w @
               (case (if cb = Undefined then callbackOnAddItem (options w) else cb) of
                  JSFunction f \<Rightarrow> [(f, [JSNumber (int (length (getItems (store w))) + 1), JSString value])]
                | _ \<Rightarrow> [])
          \<and> (truthy (if cb = Undefined then callbackOnAddItem (options w) else cb)
               \<and> \<not> isType ''Function'' (if cb = Undefined then callbackOnAddItem (options w) else cb)
             \<longrightarrow> console w' \<noteq> []
                 \<and> last (console w') = ''callbackOnAddItem: Callback is not a function''))"
proof -
  define ident where "ident = int (length (getItems (store w))) + 1"
  define c where "c = (if cb = Undefined then callbackOnAddItem (options w) else cb)"
  define pv where "pv = (let passedValue = js_trim value;
          passedValue1 = (case prependValue (options w) of None \<Rightarrow> passedValue
                          | Some p \<Rightarrow> if p \<noteq> [] then p @ passedValue else passedValue)
       in (case appendValue (options w) of None \<Rightarrow> passedValue1
                          | Some p \<Rightarrow> if p \<noteq> [] then passedValue1 @ p else passedValue1))"
  define pl where "pl = (case label of None \<Rightarrow> js_trim value
                         | Some l \<Rightarrow> if l \<noteq> [] then l else js_trim value)"
  define poid where "poid = (let optionId = (case oid of None \<Rightarrow> -1 | Some k \<Rightarrow> k)
                             in if optionId \<noteq> 0 then optionId else -1)"
  define a where "a = ADD_ITEM pv pl ident poid"
  have run: "addItem value label oid cb w =
       bindE (dispatch a w)
         (\<lambda>w1. bindE (if el_type (passedElement w1) = ''select-one''
                       then removeActiveItems ident w1 else Inr w1)
            (\<lambda>w2. Inr (if truthy c
                        then (if isType ''Function'' c
                              then call c [JSNumber ident, JSString value] w2
                              else console_error ''callbackOnAddItem: Callback is not a function'' w2)
                        else w2)))"
    by (simp only: addItem_def Let_def ident_def c_def addItemA_def a_def pv_def pl_def poid_def)
  define w1 where "w1 = projr (dispatch a w)"
  have d: "dispatch a w = Inr w1" unfolding w1_def by (rule dispatch_total)
  have w1: "store w1 = reduce a (store w)" "options w1 = options w" "subscribed w1 = subscribed w"
    "callbacks_run w1 = callbacks_run w" "timers w1 = timers w"
    "el_type (passedElement w1) = el_type (passedElement w)"
    unfolding w1_def by (simp_all add: dispatch_frame)
  define w2 where "w2 = (if el_type (passedElement w1) = ''select-one''
                         then projr (removeActiveItems ident w1) else w1)"
  have r: "(if el_type (passedElement w1) = ''select-one''
            then removeActiveItems ident w1 else Inr w1) = Inr w2"
    unfolding w2_def using returns_projr [OF removeActiveItems_returns [of ident w1]] by simp
  have w2: "store w2 = (if el_type (passedElement w) = ''select-one''
                        then fold reduce (map (\<lambda>i. REMOVE_ITEM (item_id i) (item_optionId i))
                               (filter (\<lambda>i. ident \<noteq> item_id i) (getItemsFilteredByActive (reduce a (store w)))))
                               (reduce a (store w))
                        else reduce a (store w))"
    "options w2 = options w" "subscribed w2 = subscribed w"
    "callbacks_run w2 = callbacks_run w" "timers w2 = timers w"
    "el_type (passedElement w2) = el_type (passedElement w)"
    unfolding w2_def using returns_projr [OF removeActiveItems_returns [of ident w1]] w1 by simp_all
  define w3 where "w3 = (if truthy c
                        then (if isType ''Function'' c
                              then call c [JSNumber ident, JSString value] w2
                              else console_error ''callbackOnAddItem: Callback is not a function'' w2)
                        else w2)"
  have res: "addItem value label oid cb w = Inr w3"
    unfolding run d bindE_Inr r w3_def ..
  have w3: "store w3 = store w2" "options w3 = options w2" "subscribed w3 = subscribed w2"
    "timers w3 = timers w2" "passedElement w3 = passedElement w2"
    "callbacks_run w3 = callbacks_run w2 @
       (case c of JSFunction f \<Rightarrow> [(f, [JSNumber ident, JSString value])] | _ \<Rightarrow> [])"
    "truthy c \<and> \<not> isType ''Function'' c \<longrightarrow>
       console w3 \<noteq> [] \<and> last (console w3) = ''callbackOnAddItem: Callback is not a function''"
    unfolding w3_def by (cases c; simp add: call_def isType_def console_error_def)+
  have st: "\<exists>pv pl poid. store w3 =
                (let s1 = reduce (ADD_ITEM pv pl ident poid) (store w)
                 in if el_type (passedElement w) = ''select-one''
                    then fold reduce (map (\<lambda>i. REMOVE_ITEM (item_id i) (item_optionId i))
                                        (filter (\<lambda>i. ident \<noteq> item_id i) (getItemsFilteredByActive s1))) s1
                    else s1)"
    unfolding Let_def w3(1) w2(1) a_def by blast
  show ?thesis
    unfolding res returns_Inr ident_def [symmetric] c_def [symmetric] Let_def
    using st w3(2-) w2(2-) unfolding Let_def by simp
qed


lemma fold_remove_ids:
  "map item_id (st_items (state (fold reduce (map (\<lambda>i. REMOVE_ITEM (f i) (g i)) xs) s))) =
     map item_id (st_items (state s))"
  by (induction xs arbitrary: s) (simp_all add: items_reduce o_def)

lemma fold_reduce_dispatched: "dispatched (fold reduce acts s) = dispatched s @ acts"
  by (induction acts arbitrary: s) (simp_all add: dispatched_reduce)

lemma addItem_ids:
  "returns (addItem value label oid cb w)
     (\<lambda>w'. map item_id (getItems (store w')) =
              map item_id (getItems (store w)) @ [int (length (getItems (store w))) + 1])"
proof (rule returns_mono [OF addItem_returns [of "value" label oid cb w]])
  fix w' :: widget
  assume "(\<exists>pv pl poid.
              store w' =
                (let ident = int (length (getItems (store w))) + 1;
                     s1 = reduce (ADD_ITEM pv pl ident poid) (store w)
                 in if el_type (passedElement w) = ''select-one''
                    then fold reduce (map (\<lambda>i. REMOVE_ITEM (item_id i) (item_optionId i))
                                        (filter (\<lambda>i. ident \<noteq> item_id i) (getItemsFilteredByActive s1))) s1
                    else s1))
          \<and> options w' = options w \<and> subscribed w' = subscribed w
          \<and> timers w' = timers w
          \<and> el_type (passedElement w') = el_type (passedElement w)
          \<and> callbacks_run w' = callbacks_run w @
               (case (if cb = Undefined then callbackOnAddItem (options w) else cb) of
                  JSFunction f \<Rightarrow> [(f, [JSNumber (int (length (getItems (store w))) + 1), JSString value])]
                | _ \<Rightarrow> [])
          \<and> (truthy (if cb = Undefined then callbackOnAddItem (options w) else cb)
               \<and> \<not> isType ''Function'' (if cb = Undefined then callbackOnAddItem (options w) else cb)
             \<longrightarrow> console w' \<noteq> []
                 \<and> last (console w') = ''callbackOnAddItem: Callback is not a function'')"
  then obtain pv pl poid where st: "store w' =
                (let ident = int (length (getItems (store w))) + 1;
                     s1 = reduce (ADD_ITEM pv pl ident poid) (store w)
                 in if el_type (passedElement w) = ''select-one''
                    then fold reduce (map (\<lambda>i. REMOVE_ITEM (item_id i) (item_optionId i))
                                        (filter (\<lambda>i. ident \<noteq> item_id i) (getItemsFilteredByActive s1))) s1
                    else s1)"
    by blast
  show "map item_id (getItems (store w')) =
              map item_id (getItems (store w)) @ [int (length (getItems (store w))) + 1]"
    unfolding st by (simp add: getItems_def Let_def items_reduce fold_remove_ids)
qed

lemma addItem_loop_ids:
  "returns (forEachE calls (\<lambda>(v, l, oid, cb). addItem v l oid cb) w)
     (\<lambda>w'. map item_id (getItems (store w')) =
              map item_id (getItems (store w)) @
              map int [Suc (length (getItems (store w)))..<Suc (length (getItems (store w)) + length calls)])"
proof (induction calls arbitrary: w)
  case Nil
  then show ?case by simp
next
  case (Cons c calls)
  obtain v l oid cb where c: "c = (v, l, oid, cb)" by (cases c)
  define w1 where "w1 = projr (addItem v l oid cb w)"
  have r: "addItem v l oid cb w = Inr w1"
    and ids: "map item_id (getItems (store w1)) =
              map item_id (getItems (store w)) @ [int (length (getItems (store w))) + 1]"
    unfolding w1_def using returns_projr [OF addItem_ids [of v l oid cb w]] by simp_all
  from ids have len: "length (getItems (store w1)) = Suc (length (getItems (store w)))"
    by (metis length_append_singleton length_map)
  have up: "[Suc n..<Suc (n + length (c # calls))] = Suc n # [Suc (Suc n)..<Suc (Suc n + length calls)]" for n
    by (subst upt_conv_Cons) simp_all
  have e: "map item_id (getItems (store w1)) @
             map int [Suc (length (getItems (store w1)))..<Suc (length (getItems (store w1)) + length calls)] =
           map item_id (getItems (store w)) @
             map int [Suc (length (getItems (store w)))..<Suc (length (getItems (store w)) + length (c # calls))]"
    unfolding len ids up by simp
  have "forEachE (c # calls) (\<lambda>(v, l, oid, cb). addItem v l oid cb) w =
        forEachE calls (\<lambda>(v, l, oid, cb). addItem v l oid cb) w1"
    by (simp add: c r)
  then show ?case
    using Cons.IH [of w1] unfolding e by simp
qed

section \<open>Ids of added items\<close>


lemma addItem_total: "addItem v l oid cb w = Inr (projr (addItem v l oid cb w))"
  using returns_projr [OF addItem_returns [of v l oid cb w]] by simp

text \<open>
  C2. \<open>N\<close> calls of \<open>addItem\<close> in a row (any values, labels, option ids and callbacks),
  starting from a store without items, give the items the ids \<open>1, 2, ..., N\<close> in call
  order: the list of the ids of the items, in insertion order, is \<open>[1, ..., N]\<close>, so the
  \<open>k\<close>-th added item has id \<open>k\<close>.
\<close>


theorem addItem_ids_count_up:
  assumes "getItems (store w) = []"
  shows "returns (forEachE calls (\<lambda>(value, label, optionId, callback). addItem value label optionId callback) w)
           (\<lambda>w'. map item_id (getItems (store w')) = map int [1..<Suc (length calls)])"
  using addItem_loop_ids [of calls w] assms by simp

text \<open>Adding red, green and blue to the empty text input gives the ids 1, 2, 3.\<close>


theorem addItem_ids_count_up_witness:
  "getItems (store no_tags) = []
   \<and> returns (forEachE [(''red'', None, None, Undefined), (''green'', None, None, Undefined),
                        (''blue'', Some ''Blue'', Some 4, JSFunction 3)]
                (\<lambda>(value, label, optionId, callback). addItem value label optionId callback) no_tags)
        (\<lambda>w'. map item_id (getItems (store w')) = [1, 2, 3])"
proof -
  have e: "getItems (store no_tags) = []"
    by code_simp
  have n: "map int [1..<Suc (length [a, b, c])] = [1, 2, 3]" for a b c :: "string \<times> string option \<times> int option \<times> js_value"
    by (simp add: upt_rec)
  show ?thesis
    using addItem_ids_count_up [OF e, of "[(''red'', None, None, Undefined), (''green'', None, None, Undefined),
                        (''blue'', Some ''Blue'', Some 4, JSFunction 3)]"] e
    unfolding n by simp
qed

section \<open>A single select keeps one item\<close>


lemma fold_remove_items:
  "st_items (state (fold reduce (map (\<lambda>i. REMOVE_ITEM (item_id i) (item_optionId i)) xs) s)) =
     map (\<lambda>x. if item_id x \<in> item_id ` set xs then x\<lparr>item_active := False\<rparr> else x)
       (st_items (state s))"
proof (induction xs arbitrary: s)
  case Nil
  then show ?case by simp
next
  case (Cons y ys)
  show ?case
    by (simp add: Cons.IH items_reduce o_def)
qed

lemma ids_in_sequence_fresh:
  assumes "ids_in_sequence s" and "i \<in> set (getItems s)"
  shows "item_id i \<noteq> int (length (getItems s)) + 1"
proof -
  from assms(2) have "item_id i \<in> set (map item_id (getItems s))" by simp
  with assms(1) have "item_id i \<in> set (map int [1..<Suc (length (getItems s))])"
    by (simp add: ids_in_sequence_def)
  then show ?thesis by auto
qed

text \<open>
  C9. When the passed element is of type \<open>select-one\<close>, \<open>addItem\<close> dispatches, after the
  add action, one remove action for each item that was active before the call, in
  order, and right after the call the only active item is the new one. The ids of the
  store are those \<open>addItem\<close> assigns (\<open>1..n\<close>), as in every store the widget builds.
\<close>


theorem select_one_keeps_only_new_item:
  assumes one: "el_type (passedElement w) = ''select-one''"
    and ids: "ids_in_sequence (store w)"
  shows "returns (addItem value label optionId callback w)
    (\<lambda>w'. map item_id (getItemsFilteredByActive (store w')) = [int (length (getItems (store w))) + 1]
         \<and> drop (Suc (length (dispatched (store w)))) (dispatched (store w')) =
             map (\<lambda>i. removeItemA (item_id i) (item_optionId i)) (getItemsFilteredByActive (store w)))"
proof -
  define ident where "ident = int (length (getItems (store w))) + 1"
  define w' where "w' = projr (addItem value label optionId callback w)"
  define A where "A = getItemsFilteredByActive (store w)"
  have r: "addItem value label optionId callback w = Inr w'"
    unfolding w'_def using returns_projr [OF addItem_returns [of "value" label optionId callback w]] by simp
  obtain pv pl poid where st: "store w' =
      fold reduce (map (\<lambda>i. REMOVE_ITEM (item_id i) (item_optionId i))
                     (filter (\<lambda>i. ident \<noteq> item_id i)
                        (getItemsFilteredByActive (reduce (ADD_ITEM pv pl ident poid) (store w)))))
        (reduce (ADD_ITEM pv pl ident poid) (store w))"
    unfolding w'_def ident_def
    using returns_projr [OF addItem_returns [of "value" label optionId callback w]] one
    by (auto simp: Let_def)
  define new where "new = \<lparr>item_id = ident, item_value = pv, item_label = pl, item_optionId = poid,
                            item_active = True, item_selected = False\<rparr>"
  have old: "\<And>i. i \<in> set (getItems (store w)) \<Longrightarrow> item_id i \<noteq> ident"
    unfolding ident_def using ids by (rule ids_in_sequence_fresh)
  have act1: "getItemsFilteredByActive (reduce (ADD_ITEM pv pl ident poid) (store w)) = A @ [new]"
    by (simp add: getItemsFilteredByActive_def items_reduce A_def new_def)
  have A_old: "set A \<subseteq> set (getItems (store w))"
    by (auto simp: A_def getItemsFilteredByActive_def getItems_def)
  have sel: "filter (\<lambda>i. ident \<noteq> item_id i) (A @ [new]) = A"
    using old A_old by (auto simp: new_def filter_id_conv)
  have st': "store w' = fold reduce (map (\<lambda>i. REMOVE_ITEM (item_id i) (item_optionId i)) A)
                          (reduce (ADD_ITEM pv pl ident poid) (store w))"
    using st unfolding act1 sel .
  have items': "st_items (state (store w')) =
      map (\<lambda>x. if item_id x \<in> item_id ` set A then x\<lparr>item_active := False\<rparr> else x)
        (st_items (state (store w)) @ [new])"
    unfolding st' fold_remove_items by (simp add: items_reduce new_def)
  have gone: "filter item_active
      (map (\<lambda>x. if item_id x \<in> item_id ` set A then x\<lparr>item_active := False\<rparr> else x)
         (st_items (state (store w)))) = []"
    by (auto simp: filter_empty_conv A_def getItemsFilteredByActive_def)
  have new_in: "item_id new \<notin> item_id ` set A"
    using old A_old by (auto simp: new_def)
  have active': "getItemsFilteredByActive (store w') = [new]"
    unfolding getItemsFilteredByActive_def items' using gone new_in by (simp add: new_def)
  have log: "dispatched (store w') = dispatched (store w) @ ADD_ITEM pv pl ident poid #
               map (\<lambda>i. REMOVE_ITEM (item_id i) (item_optionId i)) A"
    unfolding st' by (simp add: fold_reduce_dispatched dispatched_reduce)
  show ?thesis
    unfolding r returns_Inr active' log ident_def [symmetric] A_def [symmetric]
    by (simp add: new_def removeItemA_def)
qed

text \<open>
  On the single select with \<open>x\<close> chosen, choosing \<open>y\<close> removes item 1 and leaves item 2.
\<close>


theorem select_one_keeps_only_new_item_witness:
  "el_type (passedElement pick_xy) = ''select-one''
   \<and> ids_in_sequence (store pick_xy)
   \<and> map item_value (getItemsFilteredByActive (store pick_xy)) = [''x'']
   \<and> returns (addItem ''y'' (Some ''Y'') (Some 2) Undefined pick_xy)
       (\<lambda>w'. map item_id (getItemsFilteredByActive (store w')) = [2]
            \<and> drop (Suc (length (dispatched (store pick_xy)))) (dispatched (store w')) = [REMOVE_ITEM 1 1])"
proof -
  have h: "el_type (passedElement pick_xy) = ''select-one''" "ids_in_sequence (store pick_xy)"
    by code_simp+
  have v: "map item_value (getItemsFilteredByActive (store pick_xy)) = [''x'']"
    "int (length (getItems (store pick_xy))) + 1 = 2"
    "map (\<lambda>i. removeItemA (item_id i) (item_optionId i)) (getItemsFilteredByActive (store pick_xy)) = [REMOVE_ITEM 1 1]"
    by code_simp+
  show ?thesis
    using select_one_keeps_only_new_item [OF h, of "''y''" "Some ''Y''" "Some 2" Undefined] h v
    by simp
qed

section \<open>Invalid arguments\<close>


lemma removeItem_not_object:
  assumes "\<not> truthy item \<or> \<not> isType ''Object'' item"
  shows "removeItem item callback w =
           Inr (console_error ''removeItem: No item object was passed to be removed'' w)"
  using assms by (simp add: removeItem_def)

text \<open>
  C6, as the code has it. \<open>removeItem\<close> called with something that is not an item object
  emits a diagnostic and returns without dispatching: the store is unchanged. A callback
  that is truthy but not a function is reported by a diagnostic and not called, but only
  after the action has been dispatched: \<open>removeItem\<close> has dispatched its remove action,
  \<open>addItem\<close> has dispatched its add action (the first action it appends to the history).
\<close>


theorem invalid_arguments_reported:
  "(\<not> truthy item \<or> \<not> isType ''Object'' item \<longrightarrow>
      returns (removeItem item callback w)
        (\<lambda>w'. store w' = store w
             \<and> console w' = console w @ [''removeItem: No item object was passed to be removed'']
             \<and> callbacks_run w' = callbacks_run w))
   \<and> (truthy cb \<and> \<not> isType ''Function'' cb \<longrightarrow>
      returns (removeItem (JSObject it) cb w)
        (\<lambda>w'. console w' = console w @ [''callbackOnRemoveItem: Callback is not a function'']
             \<and> dispatched (store w') = dispatched (store w) @ [removeItemA (item_id it) (item_optionId it)]
             \<and> callbacks_run w' = callbacks_run w))
   \<and> (truthy cb \<and> \<not> isType ''Function'' cb \<longrightarrow>
      returns (addItem value label optionId cb w)
        (\<lambda>w'. console w' \<noteq> []
             \<and> last (console w') = ''callbackOnAddItem: Callback is not a function''
             \<and> length (dispatched (store w)) < length (dispatched (store w'))
             \<and> take (length (dispatched (store w))) (dispatched (store w')) = dispatched (store w)
             \<and> (\<exists>pv pl poid. dispatched (store w') ! length (dispatched (store w)) =
                   addItemA pv pl (int (length (getItems (store w))) + 1) poid)
             \<and> callbacks_run w' = callbacks_run w))"
proof (intro conjI impI)
  assume "\<not> truthy item \<or> \<not> isType ''Object'' item"
  then show "returns (removeItem item callback w)
        (\<lambda>w'. store w' = store w
             \<and> console w' = console w @ [''removeItem: No item object was passed to be removed'']
             \<and> callbacks_run w' = callbacks_run w)"
    by (simp add: removeItem_not_object console_error_def)
next
  assume "truthy cb \<and> \<not> isType ''Function'' cb"
  moreover from this have "cb \<noteq> Undefined" by auto
  ultimately show "returns (removeItem (JSObject it) cb w)
        (\<lambda>w'. console w' = console w @ [''callbackOnRemoveItem: Callback is not a function'']
             \<and> dispatched (store w') = dispatched (store w) @ [removeItemA (item_id it) (item_optionId it)]
             \<and> callbacks_run w' = callbacks_run w)"
    by (simp add: removeItem_object Let_def console_error_def dispatch_frame dispatched_reduce)
next
  assume bad: "truthy cb \<and> \<not> isType ''Function'' cb"
  then have u: "cb \<noteq> Undefined" by auto
  have nf: "(case cb of JSFunction f \<Rightarrow> [(f, args)] | _ \<Rightarrow> []) = []" for args :: "js_value list"
    using bad by (cases cb) (simp_all add: isType_def)
  show "returns (addItem value label optionId cb w)
        (\<lambda>w'. console w' \<noteq> []
             \<and> last (console w') = ''callbackOnAddItem: Callback is not a function''
             \<and> length (dispatched (store w)) < length (dispatched (store w'))
             \<and> take (length (dispatched (store w))) (dispatched (store w')) = dispatched (store w)
             \<and> (\<exists>pv pl poid. dispatched (store w') ! length (dispatched (store w)) =
                   addItemA pv pl (int (length (getItems (store w))) + 1) poid)
             \<and> callbacks_run w' = callbacks_run w)"
  proof (rule returns_mono [OF addItem_returns [of "value" label optionId cb w]])
    fix w' :: widget
    assume post: "(\<exists>pv pl poid.
              store w' =
                (let ident = int (length (getItems (store w))) + 1;
                     s1 = reduce (ADD_ITEM pv pl ident poid) (store w)
                 in if el_type (passedElement w) = ''select-one''
                    then fold reduce (map (\<lambda>i. REMOVE_ITEM (item_id i) (item_optionId i))
                                        (filter (\<lambda>i. ident \<noteq> item_id i) (getItemsFilteredByActive s1))) s1
                    else s1))
          \<and> options w' = options w \<and> subscribed w' = subscribed w
          \<and> timers w' = timers w
          \<and> el_type (passedElement w') = el_type (passedElement w)
          \<and> callbacks_run w' = callbacks_run w @
               (case (if cb = Undefined then callbackOnAddItem (options w) else cb) of
                  JSFunction f \<Rightarrow> [(f, [JSNumber (int (length (getItems (store w))) + 1), JSString value])]
                | _ \<Rightarrow> [])
          \<and> (truthy (if cb = Undefined then callbackOnAddItem (options w) else cb)
               \<and> \<not> isType ''Function'' (if cb = Undefined then callbackOnAddItem (options w) else cb)
             \<longrightarrow> console w' \<noteq> []
                 \<and> last (console w') = ''callbackOnAddItem: Callback is not a function'')"
    then obtain pv pl poid rest where
      log: "dispatched (store w') =
              dispatched (store w) @ ADD_ITEM pv pl (int (length (getItems (store w))) + 1) poid # rest"
      by (auto simp: Let_def fold_reduce_dispatched dispatched_reduce split: if_splits)
    from post u bad have c: "console w' \<noteq> []"
      "last (console w') = ''callbackOnAddItem: Callback is not a function''"
      "callbacks_run w' = callbacks_run w"
      by (simp_all add: nf)
    show "console w' \<noteq> []
             \<and> last (console w') = ''callbackOnAddItem: Callback is not a function''
             \<and> length (dispatched (store w)) < length (dispatched (store w'))
             \<and> take (length (dispatched (store w))) (dispatched (store w')) = dispatched (store w)
             \<and> (\<exists>pv pl poid. dispatched (store w') ! length (dispatched (store w)) =
                   addItemA pv pl (int (length (getItems (store w))) + 1) poid)
             \<and> callbacks_run w' = callbacks_run w"
      using c unfolding log by (auto simp: addItemA_def)
  qed
qed

theorem invalid_arguments_reported_witness:
  "isType ''Object'' (JSString ''a'') = False
   \<and> returns (removeItem (JSString ''a'') Undefined tags_ab)
        (\<lambda>w'. store w' = store tags_ab
             \<and> console w' = console tags_ab @ [''removeItem: No item object was passed to be removed'']
             \<and> callbacks_run w' = callbacks_run tags_ab)
   \<and> (truthy (JSNumber 5) \<and> \<not> isType ''Function'' (JSNumber 5))
   \<and> returns (removeItem (JSObject (hd (getItems (store tags_ab)))) (JSNumber 5) tags_ab)
        (\<lambda>w'. console w' = console tags_ab @ [''callbackOnRemoveItem: Callback is not a function'']
             \<and> dispatched (store w') = dispatched (store tags_ab) @
                  [removeItemA (item_id (hd (getItems (store tags_ab))))
                     (item_optionId (hd (getItems (store tags_ab))))]
             \<and> callbacks_run w' = callbacks_run tags_ab)
   \<and> returns (addItem ''c'' None None (JSNumber 5) tags_ab)
        (\<lambda>w'. console w' \<noteq> []
             \<and> last (console w') = ''callbackOnAddItem: Callback is not a function''
             \<and> length (dispatched (store tags_ab)) < length (dispatched (store w'))
             \<and> take (length (dispatched (store tags_ab))) (dispatched (store w')) =
                 dispatched (store tags_ab)
             \<and> (\<exists>pv pl poid. dispatched (store w') ! length (dispatched (store tags_ab)) =
                   addItemA pv pl (int (length (getItems (store tags_ab))) + 1) poid)
             \<and> callbacks_run w' = callbacks_run tags_ab)"
  using invalid_arguments_reported [of "JSString ''a''" Undefined tags_ab "JSNumber 5"
      "hd (getItems (store tags_ab))" "''c''" None None]
  by (simp add: isType_def)


text \<open>
  C6 as stated fails: \<open>addItem\<close> on the tags \<open>a,b\<close> with the string \<open>oops\<close> as callback
  emits the diagnostic, and the add action has been dispatched and the store changed.
\<close>


theorem addItem_bad_callback_still_dispatches:
  "\<not> isl (addItem ''c'' None None (JSString ''oops'') tags_ab)
   \<and> truthy (JSString ''oops'') \<and> \<not> isType ''Function'' (JSString ''oops'')
   \<and> console (projr (addItem ''c'' None None (JSString ''oops'') tags_ab)) =
       [''callbackOnAddItem: Callback is not a function'']
   \<and> dispatched (store (projr (addItem ''c'' None None (JSString ''oops'') tags_ab))) =
       dispatched (store tags_ab) @ [ADD_ITEM ''c'' ''c'' 3 (-1)]
   \<and> store (projr (addItem ''c'' None None (JSString ''oops'') tags_ab)) \<noteq> store tags_ab"
  by code_simp

section \<open>Rendering twice\<close>

lemma render_currentState: "currentState (projr (render w)) = Some (getState (store w))"
  by (simp add: render_def render_options_region_def Let_def highlightOption_None renderItems_def)

lemma render_prevState:
  "\<not> differs tree_ref (getState (store w)) (prevState (projr (render w)))"
  by (simp add: render_def render_options_region_def Let_def highlightOption_None renderItems_def
      differs_def)

lemma render_clean:
  assumes "currentState w = Some (getState (store w))"
    and "\<not> differs tree_ref (getState (store w)) (prevState w)"
  shows "render w = Inr w"
proof -
  have "w\<lparr>currentState := Some (getState (store w))\<rparr> = w"
    using assms(1) by simp
  then show ?thesis
    using assms(2) by (simp add: render_def Let_def)
qed

text \<open>
  C3. \<open>render\<close> is idempotent: in every state, a second call of \<open>render\<close> right after a
  first one (no dispatch in between) returns the widget as the first call left it: the
  dropdown, the item list and the value string of the control are unchanged. The first
  call has made the previous snapshot the current one, so the second fails the
  reference test and does nothing.
\<close>

theorem render_idempotent:
  "returns (render w)
     (\<lambda>w1. returns (render w1)
        (\<lambda>w2. w2 = w1 \<and> dropdown w2 = dropdown w1 \<and> listEl w2 = listEl w1
              \<and> get_value (passedElement w2) = get_value (passedElement w1)))"
proof -
  define w1 where "w1 = projr (render w)"
  have r: "render w = Inr w1" unfolding w1_def by (rule render_total)
  have "render w1 = Inr w1"
    unfolding w1_def
    by (rule render_clean) (simp_all add: render_currentState render_prevState render_frame)
  then show ?thesis by (simp add: r)
qed

text \<open>
  The state in which dispatch calls \<open>render\<close> after item 1 of the single select was
  removed: the first call rebuilds the dropdown, the second leaves it.
\<close>

theorem render_idempotent_witness:
  "returns (render after_unpick)
     (\<lambda>w1. returns (render w1)
        (\<lambda>w2. w2 = w1 \<and> dropdown w2 = dropdown w1 \<and> listEl w2 = listEl w1
              \<and> get_value (passedElement w2) = get_value (passedElement w1)))
   \<and> map (\<lambda>e. opt_value (el_option e)) (option_els (dropdown (projr (render after_unpick)))) = [''x'', ''y'']
   \<and> dropdown (projr (render after_unpick)) \<noteq> dropdown after_unpick"
proof -
  have "map (\<lambda>e. opt_value (el_option e)) (option_els (dropdown (projr (render after_unpick)))) = [''x'', ''y'']"
    "dropdown (projr (render after_unpick)) \<noteq> dropdown after_unpick"
    by code_simp+
  then show ?thesis
    using render_idempotent [of after_unpick] by simp
qed

section \<open>The highlighted option\<close>

lemma length_upd_els [simp]: "length (upd_els f k es) = length es"
  by (induction es arbitrary: k) simp_all

lemma nth_upd_els: "i < length es \<Longrightarrow> upd_els f k es ! i = f (k + i) (es ! i)"
proof (induction es arbitrary: k i)
  case Nil
  then show ?case by simp
next
  case (Cons e es)
  then show ?case by (cases i) simp_all
qed

lemma upd_els_append: "upd_els f k (xs @ ys) = upd_els f k xs @ upd_els f (k + length xs) ys"
  by (induction xs arbitrary: k) simp_all

lemma option_els_upd_nodes: "option_els (upd_nodes f k ns) = upd_els f k (option_els ns)"
proof (induction f k ns rule: upd_nodes.induct)
  case (3 f k g es ns)
  then show ?case by (simp add: option_els_def upd_els_append)
qed (simp_all add: option_els_def)

lemma upd_els_upd_els: "upd_els f k (upd_els g k es) = upd_els (\<lambda>i e. f i (g i e)) k es"
  by (induction es arbitrary: k) simp_all

lemma upd_nodes_upd_nodes: "upd_nodes f k (upd_nodes g k ns) = upd_nodes (\<lambda>i e. f i (g i e)) k ns"
  by (induction g k ns rule: upd_nodes.induct) (simp_all add: upd_els_upd_els)

lemma upd_els_id: "(\<And>i e. e \<in> set es \<Longrightarrow> f i e = e) \<Longrightarrow> upd_els f k es = es"
  by (induction es arbitrary: k) simp_all

lemma upd_nodes_id: "(\<And>i e. e \<in> set (option_els ns) \<Longrightarrow> f i e = e) \<Longrightarrow> upd_nodes f k ns = ns"
proof (induction f k ns rule: upd_nodes.induct)
  case (3 f k g es ns)
  then show ?case by (simp add: option_els_def upd_els_id)
qed (simp_all add: option_els_def)

lemma filter_eq_upt: "p < n \<Longrightarrow> filter (\<lambda>i. i = p) [0..<n] = [p]"
  by (induction n) (auto simp: less_Suc_eq)

lemma option_els_rehighlighted:
  "option_els (classList_add_highlighted p (classList_remove_highlighted ns)) =
     upd_els (\<lambda>i e. e\<lparr>highlighted := (i = p)\<rparr>) 0 (option_els ns)"
proof -
  have "(\<lambda>i e. if i = p then (e\<lparr>highlighted := False\<rparr>)\<lparr>highlighted := True\<rparr>
                else e\<lparr>highlighted := False\<rparr>) =
        (\<lambda>i (e :: option_el). e\<lparr>highlighted := (i = p)\<rparr>)"
    by (intro ext) simp
  then show ?thesis
    by (simp add: classList_add_highlighted_def classList_remove_highlighted_def
        upd_nodes_upd_nodes option_els_upd_nodes)
qed

lemma rehighlighted_facts:
  fixes ns p
  defines "ns' \<equiv> classList_add_highlighted p (classList_remove_highlighted ns)"
  shows "length (option_els ns') = length (option_els ns)"
    and "map el_option (option_els ns') = map el_option (option_els ns)"
    and "selectable_positions ns' = selectable_positions ns"
    and "highlighted_positions ns' = filter (\<lambda>i. i = p) [0..<length (option_els ns)]"
proof -
  show len: "length (option_els ns') = length (option_els ns)"
    by (simp add: ns'_def option_els_rehighlighted)
  have nth: "i < length (option_els ns) \<Longrightarrow>
             option_els ns' ! i = (option_els ns ! i)\<lparr>highlighted := (i = p)\<rparr>" for i
    by (simp add: ns'_def option_els_rehighlighted nth_upd_els)
  show "map el_option (option_els ns') = map el_option (option_els ns)"
    by (rule nth_equalityI) (simp_all add: len nth)
  show "selectable_positions ns' = selectable_positions ns"
    unfolding selectable_positions_def len
    by (rule filter_cong) (simp_all add: nth)
  show "highlighted_positions ns' = filter (\<lambda>i. i = p) [0..<length (option_els ns)]"
    unfolding highlighted_positions_def len
    by (rule filter_cong) (simp_all add: nth)
qed

lemma selectable_positions_bound:
  "p \<in> set (selectable_positions ns) \<Longrightarrow> p < length (option_els ns)"
  by (simp add: selectable_positions_def)

lemma clamped_cases:
  assumes "0 < n"
  shows "clamped hp n = (if 0 \<le> hp \<and> hp < int n then nat hp else if int n \<le> hp then n - 1 else 0)"
    and "clamped hp n < n"
  using assms by (auto simp: clamped_def min_def max_def nat_diff_distrib)

lemma highlightOption_None_facts:
  assumes "selectable_positions (dropdown w) \<noteq> []"
  shows "returns (highlightOption None w)
     (\<lambda>w'. let opts = selectable_positions (dropdown w);
                n = length opts;
                hp = highlightPosition w;
                k = (if 0 \<le> hp \<and> hp < int n then nat hp else if int n \<le> hp then n - 1 else 0)
            in k < n
             \<and> highlighted_positions (dropdown w') = [opts ! k]
             \<and> selectable_positions (dropdown w') = opts
             \<and> map el_option (option_els (dropdown w')) = map el_option (option_els (dropdown w))
             \<and> highlightPosition w' = hp)"
proof -
  define opts where "opts = selectable_positions (dropdown w)"
  define k where "k = clamped (highlightPosition w) (length opts)"
  from assms have n: "0 < length opts" by (simp add: opts_def)
  have k: "k < length opts"
    "k = (if 0 \<le> highlightPosition w \<and> highlightPosition w < int (length opts)
          then nat (highlightPosition w)
          else if int (length opts) \<le> highlightPosition w then length opts - 1 else 0)"
    unfolding k_def using clamped_cases [OF n] by simp_all
  from k(1) have "opts ! k \<in> set opts" by simp
  then have p: "opts ! k < length (option_els (dropdown w))"
    unfolding opts_def by (rule selectable_positions_bound)
  have "highlightOption None w =
          Inr (w\<lparr>dropdown := classList_add_highlighted (opts ! k)
                               (classList_remove_highlighted (dropdown w))\<rparr>)"
    using assms by (simp add: highlightOption_None opts_def k_def)
  then show ?thesis
    using k(1) p
    by (simp add: Let_def rehighlighted_facts filter_eq_upt opts_def [symmetric] k(2) [symmetric])
qed

lemma renderOptions_frame [simp]:
  "renderOptions (w\<lparr>currentState := c\<rparr>) = renderOptions w"
  "renderOptions (w\<lparr>dropdown := d\<rparr>) = renderOptions w"
  by (simp_all add: renderOptions_def fun_eq_iff)

lemma optionListFragment_frame [simp]:
  "optionListFragment (w\<lparr>currentState := c\<rparr>) = optionListFragment w"
  "optionListFragment (w\<lparr>dropdown := d\<rparr>) = optionListFragment w"
  by (simp_all add: optionListFragment_def Let_def)

lemma render_dirty_dropdown:
  assumes "el_type (passedElement w) = ''select-multiple'' \<or> el_type (passedElement w) = ''select-one''"
    and "differs tree_ref (getState (store w)) (prevState w)"
    and "differs options_ref (getState (store w)) (prevState w)
         \<or> differs groups_ref (getState (store w)) (prevState w)"
  shows "dropdown (projr (render w)) =
           (if optionListFragment w \<noteq> []
            then dropdown (projr (highlightOption None (w\<lparr>dropdown := optionListFragment w\<rparr>)))
            else [NoticeNode (if isSearching w then ''No results found'' else ''No options to select'')])"
  using assms
  by (auto simp: render_def render_options_region_def Let_def highlightOption_None renderItems_def)

lemma renderGroups_append:
  "renderGroups groups opts fragment =
     fragment @ concat (map (\<lambda>g. if length (filter (\<lambda>p. opt_groupId p = grp_id g) opts) \<ge> 1
                                  then [GroupNode g (map option_template (filter (\<lambda>p. opt_groupId p = grp_id g) opts))]
                                  else []) groups)"
  unfolding renderGroups_def
  by (induction groups arbitrary: fragment) (simp_all add: Let_def)

lemma renderOptions_append:
  "renderOptions w opts fragment =
     fragment @ map (\<lambda>p. OptionNode (option_template p))
                  (filter (\<lambda>p. el_type (passedElement w) = ''select-one'' \<or> \<not> opt_selected p) opts)"
  unfolding renderOptions_def
  by (induction opts arbitrary: fragment) simp_all

lemma fragment_fresh:
  "e \<in> set (option_els (optionListFragment w)) \<Longrightarrow> \<not> highlighted e"
  by (auto simp: optionListFragment_def Let_def renderGroups_append renderOptions_append
      option_els_def option_template_def split: if_splits)

lemma remove_highlighted_fresh:
  "classList_remove_highlighted (optionListFragment w) = optionListFragment w"
  unfolding classList_remove_highlighted_def
  by (rule upd_nodes_id) (simp add: fragment_fresh)

lemma remove_rehighlighted:
  "classList_remove_highlighted (classList_add_highlighted p (classList_remove_highlighted ns)) =
     classList_remove_highlighted ns"
proof -
  have "(\<lambda>i e. (if i = p then (e\<lparr>highlighted := False\<rparr>)\<lparr>highlighted := True\<rparr>
                else e\<lparr>highlighted := False\<rparr>)\<lparr>highlighted := False\<rparr>) =
        (\<lambda>i (e :: option_el). e\<lparr>highlighted := False\<rparr>)"
    by (intro ext) simp
  then show ?thesis
    by (simp add: classList_add_highlighted_def classList_remove_highlighted_def upd_nodes_upd_nodes)
qed

lemma remove_added:
  "classList_remove_highlighted (classList_add_highlighted p ns) = classList_remove_highlighted ns"
proof -
  have "(\<lambda>i e. (if i = p then e\<lparr>highlighted := True\<rparr> else e)\<lparr>highlighted := False\<rparr>) =
        (\<lambda>i (e :: option_el). e\<lparr>highlighted := False\<rparr>)"
    by (intro ext) simp
  then show ?thesis
    by (simp add: classList_add_highlighted_def classList_remove_highlighted_def upd_nodes_upd_nodes)
qed

lemma highlighted_fresh: "highlighted_positions (optionListFragment w) = []"
  by (auto simp: highlighted_positions_def filter_empty_conv dest: fragment_fresh [OF nth_mem])

lemma no_selectable: "selectable_positions (dropdown w) = [] \<Longrightarrow> highlightOption None w = Inr w"
  by (simp add: highlightOption_def)

lemma highlight_restored_from_index:
  assumes n: "opts \<noteq> []"
    and k: "highlighted_positions dd =
              [opts ! (if 0 \<le> hp \<and> hp < int (length opts) then nat hp
                       else if int (length opts) \<le> hp then length opts - 1 else 0)]"
    and s: "selectable_positions dd = opts"
  shows "highlight_restored opts hp dd"
  using assms by (auto simp: highlight_restored_def last_conv_nth hd_conv_nth js_nth_def)

text \<open>
  C5, as the code has it. The last known highlight index counts the selectable (not
  disabled) options of the rebuilt list, in document order. If there is at least one,
  \<open>highlightOption()\<close> returns normally and highlights exactly one option: the
  selectable option at that index when the index is within their number, the last
  selectable option when the index is past the end, and the first one when the index is
  negative: then the read at the index is out of bounds, yields \<open>undefined\<close>, and the
  fallback applies. If the list has no selectable option, nothing is highlighted. The
  same holds of \<open>render\<close> when it has rebuilt a dirty option region of a select with a
  fragment that is not empty.
\<close>

theorem highlight_restored_among_selectable:
  "(selectable_positions (dropdown w) \<noteq> [] \<longrightarrow>
      returns (highlightOption None w)
        (\<lambda>w'. highlight_restored (selectable_positions (dropdown w)) (highlightPosition w) (dropdown w')
             \<and> map el_option (option_els (dropdown w')) = map el_option (option_els (dropdown w))
             \<and> highlightPosition w' = highlightPosition w))
   \<and> (selectable_positions (dropdown w) = [] \<longrightarrow> highlightOption None w = Inr w)
   \<and> ((el_type (passedElement w) = ''select-multiple'' \<or> el_type (passedElement w) = ''select-one'')
       \<and> differs tree_ref (getState (store w)) (prevState w)
       \<and> (differs options_ref (getState (store w)) (prevState w)
          \<or> differs groups_ref (getState (store w)) (prevState w))
       \<and> selectable_positions (optionListFragment w) \<noteq> [] \<longrightarrow>
      returns (render w)
        (\<lambda>w'. highlight_restored (selectable_positions (optionListFragment w)) (highlightPosition w)
                 (dropdown w')
             \<and> map el_option (option_els (dropdown w')) =
                 map el_option (option_els (optionListFragment w))))
   \<and> ((el_type (passedElement w) = ''select-multiple'' \<or> el_type (passedElement w) = ''select-one'')
       \<and> differs tree_ref (getState (store w)) (prevState w)
       \<and> (differs options_ref (getState (store w)) (prevState w)
          \<or> differs groups_ref (getState (store w)) (prevState w))
       \<and> optionListFragment w \<noteq> []
       \<and> selectable_positions (optionListFragment w) = [] \<longrightarrow>
      returns (render w)
        (\<lambda>w'. dropdown w' = optionListFragment w \<and> highlighted_positions (dropdown w') = []))"
proof (intro conjI impI)
  assume a: "selectable_positions (dropdown w) \<noteq> []"
  show "returns (highlightOption None w)
        (\<lambda>w'. highlight_restored (selectable_positions (dropdown w)) (highlightPosition w) (dropdown w')
             \<and> map el_option (option_els (dropdown w')) = map el_option (option_els (dropdown w))
             \<and> highlightPosition w' = highlightPosition w)"
    by (rule returns_mono [OF highlightOption_None_facts [OF a]])
       (simp add: Let_def highlight_restored_from_index [OF a])
next
  assume "selectable_positions (dropdown w) = []"
  then show "highlightOption None w = Inr w" by (rule no_selectable)
next
  assume a: "(el_type (passedElement w) = ''select-multiple'' \<or> el_type (passedElement w) = ''select-one'')
       \<and> differs tree_ref (getState (store w)) (prevState w)
       \<and> (differs options_ref (getState (store w)) (prevState w)
          \<or> differs groups_ref (getState (store w)) (prevState w))
       \<and> selectable_positions (optionListFragment w) \<noteq> []"
  define v where "v = w\<lparr>dropdown := optionListFragment w\<rparr>"
  have ne: "optionListFragment w \<noteq> []"
    using a by (auto simp: selectable_positions_def option_els_def)
  have v: "selectable_positions (dropdown v) \<noteq> []" "dropdown v = optionListFragment w"
    "highlightPosition v = highlightPosition w"
    using a by (simp_all add: v_def)
  define u where "u = projr (highlightOption None v)"
  define w' where "w' = projr (render w)"
  have r: "render w = Inr w'" unfolding w'_def by (rule render_total)
  have d: "dropdown w' = dropdown u"
    unfolding w'_def u_def v_def using a ne by (simp add: render_dirty_dropdown)
  have "highlight_restored (selectable_positions (dropdown v)) (highlightPosition v) (dropdown u)
        \<and> map el_option (option_els (dropdown u)) = map el_option (option_els (dropdown v))"
    using returns_projr [OF highlightOption_None_facts [OF v(1)]]
    unfolding u_def [symmetric]
    by (simp add: Let_def highlight_restored_from_index [OF v(1)])
  then show "returns (render w)
        (\<lambda>w'. highlight_restored (selectable_positions (optionListFragment w)) (highlightPosition w)
                 (dropdown w')
             \<and> map el_option (option_els (dropdown w')) =
                 map el_option (option_els (optionListFragment w)))"
    unfolding r returns_Inr d v(2) v(3) .
next
  assume a: "(el_type (passedElement w) = ''select-multiple'' \<or> el_type (passedElement w) = ''select-one'')
       \<and> differs tree_ref (getState (store w)) (prevState w)
       \<and> (differs options_ref (getState (store w)) (prevState w)
          \<or> differs groups_ref (getState (store w)) (prevState w))
       \<and> optionListFragment w \<noteq> []
       \<and> selectable_positions (optionListFragment w) = []"
  define w' where "w' = projr (render w)"
  have r: "render w = Inr w'" unfolding w'_def by (rule render_total)
  have "dropdown w' = optionListFragment w"
    unfolding w'_def using a by (simp add: render_dirty_dropdown no_selectable)
  then show "returns (render w)
        (\<lambda>w'. dropdown w' = optionListFragment w \<and> highlighted_positions (dropdown w') = [])"
    unfolding r returns_Inr by (simp add: highlighted_fresh)
qed

text \<open>
  Three options, the second disabled: the selectable ones are at positions 0 and 2.
  Index 7 is past the end and highlights position 2; index -1 highlights position 0.
  Two options, both disabled: nothing is highlighted.
\<close>

theorem highlight_restored_among_selectable_witness:
  "selectable_positions (dropdown far_highlight) \<noteq> []
   \<and> returns (highlightOption None far_highlight)
        (\<lambda>w'. highlighted_positions (dropdown w') = [2])
   \<and> selectable_positions (dropdown only_disabled) = []
   \<and> highlightOption None only_disabled = Inr only_disabled
   \<and> (el_type (passedElement reactivated) = ''select-multiple'' \<or> el_type (passedElement reactivated) = ''select-one'')
   \<and> differs tree_ref (getState (store reactivated)) (prevState reactivated)
   \<and> (differs options_ref (getState (store reactivated)) (prevState reactivated)
      \<or> differs groups_ref (getState (store reactivated)) (prevState reactivated))
   \<and> selectable_positions (optionListFragment reactivated) \<noteq> []
   \<and> returns (render reactivated)
        (\<lambda>w'. highlighted_positions (dropdown w') = [0])
   \<and> differs tree_ref (getState (store only_disabled_dirty)) (prevState only_disabled_dirty)
   \<and> optionListFragment only_disabled_dirty \<noteq> []
   \<and> selectable_positions (optionListFragment only_disabled_dirty) = []
   \<and> returns (render only_disabled_dirty)
        (\<lambda>w'. dropdown w' = optionListFragment only_disabled_dirty
             \<and> highlighted_positions (dropdown w') = [])"
proof -
  have h1: "selectable_positions (dropdown far_highlight) \<noteq> []"
    by code_simp
  have v1: "selectable_positions (dropdown far_highlight) = [0, 2]" "highlightPosition far_highlight = 7"
    by code_simp+
  have h2: "selectable_positions (dropdown only_disabled) = []"
    by code_simp
  have h3: "(el_type (passedElement reactivated) = ''select-multiple'' \<or> el_type (passedElement reactivated) = ''select-one'')
       \<and> differs tree_ref (getState (store reactivated)) (prevState reactivated)
       \<and> (differs options_ref (getState (store reactivated)) (prevState reactivated)
          \<or> differs groups_ref (getState (store reactivated)) (prevState reactivated))
       \<and> selectable_positions (optionListFragment reactivated) \<noteq> []"
    by code_simp
  have v3: "selectable_positions (optionListFragment reactivated) = [0, 2]"
    "highlightPosition reactivated = -1"
    by code_simp+
  have h4: "(el_type (passedElement only_disabled_dirty) = ''select-multiple''
             \<or> el_type (passedElement only_disabled_dirty) = ''select-one'')
       \<and> differs tree_ref (getState (store only_disabled_dirty)) (prevState only_disabled_dirty)
       \<and> (differs options_ref (getState (store only_disabled_dirty)) (prevState only_disabled_dirty)
          \<or> differs groups_ref (getState (store only_disabled_dirty)) (prevState only_disabled_dirty))
       \<and> optionListFragment only_disabled_dirty \<noteq> []
       \<and> selectable_positions (optionListFragment only_disabled_dirty) = []"
    by code_simp
  note t1 = highlight_restored_among_selectable [of far_highlight]
  note t2 = highlight_restored_among_selectable [of only_disabled]
  note t3 = highlight_restored_among_selectable [of reactivated]
  note t4 = highlight_restored_among_selectable [of only_disabled_dirty]
  have a: "returns (highlightOption None far_highlight) (\<lambda>w'. highlighted_positions (dropdown w') = [2])"
    by (rule returns_mono [OF mp [OF conjunct1 [OF t1] h1]])
       (simp add: v1 highlight_restored_def)
  have b: "highlightOption None only_disabled = Inr only_disabled"
    by (rule mp [OF conjunct1 [OF conjunct2 [OF t2]] h2])
  have c: "returns (render reactivated) (\<lambda>w'. highlighted_positions (dropdown w') = [0])"
    by (rule returns_mono [OF mp [OF conjunct1 [OF conjunct2 [OF conjunct2 [OF t3]]] h3]])
       (simp add: v3 highlight_restored_def)
  have d: "returns (render only_disabled_dirty)
        (\<lambda>w'. dropdown w' = optionListFragment only_disabled_dirty
             \<and> highlighted_positions (dropdown w') = [])"
    by (rule mp [OF conjunct2 [OF conjunct2 [OF conjunct2 [OF t4]]] h4])
  show ?thesis
    using h1 h2 h3 h4 a b c d by blast
qed

text \<open>
  C5 as stated fails. On the multiple select whose two options are both disabled, the
  option region is dirty, the rebuilt list holds two options, and after \<open>render\<close> no
  option is highlighted. On the select with \<open>x\<close>, \<open>y\<close> (disabled), \<open>z\<close>, the index 1
  highlights \<open>z\<close> at position 2 of the list, not the option at position 1; and with the
  index -1 the read at that index is outside the list.
\<close>

theorem rebuilt_list_without_highlight:
  "el_type (passedElement only_disabled_dirty) = ''select-multiple''
   \<and> differs tree_ref (getState (store only_disabled_dirty)) (prevState only_disabled_dirty)
   \<and> differs options_ref (getState (store only_disabled_dirty)) (prevState only_disabled_dirty)
   \<and> \<not> isl (render only_disabled_dirty)
   \<and> length (option_els (dropdown (projr (render only_disabled_dirty)))) = 2
   \<and> highlighted_positions (dropdown (projr (render only_disabled_dirty))) = []
   \<and> highlighted_positions
        (dropdown (projr (highlightOption None (three_options\<lparr>highlightPosition := 1\<rparr>)))) = [2]
   \<and> js_nth (selectable_positions (optionListFragment reactivated)) (highlightPosition reactivated) = None"
  by code_simp

section \<open>What a dirty option region shows\<close>

text \<open>
  C4, as the code has it. When the option region is dirty and the control is a select,
  the fragment is filled by the case split: by \<open>renderGroups\<close> if an active group exists
  and the widget is not searching, else by \<open>renderOptions\<close> if an active option exists,
  else not at all. The dropdown then holds the fragment if it is not empty (up to the
  highlight \<open>highlightOption\<close> adds), and otherwise the placeholder: 'No results found'
  when searching, 'No options to select' when not. The fragment can be empty in the
  first two cases too: no active group has an active option, or every active option of
  a multiple select is selected.
\<close>


theorem dropdown_rebuilt_by_cases:
  assumes "el_type (passedElement w) = ''select-multiple'' \<or> el_type (passedElement w) = ''select-one''"
    and "differs tree_ref (getState (store w)) (prevState w)"
    and "differs options_ref (getState (store w)) (prevState w)
         \<or> differs groups_ref (getState (store w)) (prevState w)"
  shows "returns (render w)
     (\<lambda>w'. classList_remove_highlighted (dropdown w') =
        (let activeGroups = getGroupsFilteredByActive (store w);
             activeOptions = getOptionsFilteredByActive (store w);
             fragment = (if activeGroups \<noteq> [] \<and> \<not> isSearching w
                         then renderGroups activeGroups activeOptions []
                         else if activeOptions \<noteq> []
                         then renderOptions w activeOptions []
                         else [])
         in if fragment \<noteq> [] then fragment
            else [NoticeNode (if isSearching w then ''No results found''
                              else ''No options to select'')]))"
proof -
  have f: "(let activeGroups = getGroupsFilteredByActive (store w);
             activeOptions = getOptionsFilteredByActive (store w);
             fragment = (if activeGroups \<noteq> [] \<and> \<not> isSearching w
                         then renderGroups activeGroups activeOptions []
                         else if activeOptions \<noteq> []
                         then renderOptions w activeOptions []
                         else [])
         in if fragment \<noteq> [] then fragment
            else [NoticeNode (if isSearching w then ''No results found''
                              else ''No options to select'')]) =
        (if optionListFragment w \<noteq> [] then optionListFragment w
         else [NoticeNode (if isSearching w then ''No results found'' else ''No options to select'')])"
    by (simp add: optionListFragment_def Let_def Suc_le_eq)
  have h: "classList_remove_highlighted
             (dropdown (projr (highlightOption None (w\<lparr>dropdown := optionListFragment w\<rparr>)))) =
           optionListFragment w"
    by (simp add: highlightOption_None remove_added remove_highlighted_fresh)
  have n: "classList_remove_highlighted [NoticeNode s] = [NoticeNode s]" for s
    by (simp add: classList_remove_highlighted_def)
  define w' where "w' = projr (render w)"
  have r: "render w = Inr w'" unfolding w'_def by (rule render_total)
  have "classList_remove_highlighted (dropdown w') =
        (if optionListFragment w \<noteq> [] then optionListFragment w
         else [NoticeNode (if isSearching w then ''No results found'' else ''No options to select'')])"
    unfolding w'_def render_dirty_dropdown [OF assms] by (simp add: h n)
  then show ?thesis
    unfolding f r returns_Inr .
qed

text \<open>
  The single select after item 1 was removed: there is no group, both options are
  active, and the dropdown shows both.
\<close>

theorem dropdown_rebuilt_by_cases_witness:
  "(el_type (passedElement after_unpick) = ''select-multiple'' \<or> el_type (passedElement after_unpick) = ''select-one'')
   \<and> differs tree_ref (getState (store after_unpick)) (prevState after_unpick)
   \<and> (differs options_ref (getState (store after_unpick)) (prevState after_unpick)
      \<or> differs groups_ref (getState (store after_unpick)) (prevState after_unpick))
   \<and> returns (render after_unpick)
       (\<lambda>w'. classList_remove_highlighted (dropdown w') =
                renderOptions after_unpick (getOptionsFilteredByActive (store after_unpick)) [])
   \<and> length (renderOptions after_unpick (getOptionsFilteredByActive (store after_unpick)) []) = 2"
proof -
  have h: "el_type (passedElement after_unpick) = ''select-multiple'' \<or> el_type (passedElement after_unpick) = ''select-one''"
    "differs tree_ref (getState (store after_unpick)) (prevState after_unpick)"
    "differs options_ref (getState (store after_unpick)) (prevState after_unpick)
      \<or> differs groups_ref (getState (store after_unpick)) (prevState after_unpick)"
    by code_simp+
  have v: "getGroupsFilteredByActive (store after_unpick) = []"
    "getOptionsFilteredByActive (store after_unpick) \<noteq> []"
    "renderOptions after_unpick (getOptionsFilteredByActive (store after_unpick)) [] \<noteq> []"
    "length (renderOptions after_unpick (getOptionsFilteredByActive (store after_unpick)) []) = 2"
    by code_simp+
  show ?thesis
    using dropdown_rebuilt_by_cases [OF h] h v by (simp add: Let_def)
qed

text \<open>
  C4 as stated fails: on the multiple select whose only option has just been chosen
  (by \<open>addItem\<close> with the option's value, label and id), there is no group and an
  active option exists, yet the dropdown shows the placeholder and not the flat
  rendering.
\<close>


theorem placeholder_despite_active_option:
  "\<not> isl (render all_chosen)
   \<and> el_type (passedElement all_chosen) = ''select-multiple''
   \<and> differs tree_ref (getState (store all_chosen)) (prevState all_chosen)
   \<and> differs options_ref (getState (store all_chosen)) (prevState all_chosen)
   \<and> getGroupsFilteredByActive (store all_chosen) = []
   \<and> getOptionsFilteredByActive (store all_chosen) \<noteq> []
   \<and> dropdown (projr (render all_chosen)) = [NoticeNode ''No options to select'']
   \<and> claimed_dropdown all_chosen = []
   \<and> dropdown (projr (render all_chosen)) \<noteq> claimed_dropdown all_chosen
   \<and> dropdown (projr (addItem ''x'' (Some ''X'') (Some 1) Undefined multi_x)) =
       [NoticeNode ''No options to select'']"
  by code_simp

section \<open>The value string of the control\<close>


lemma reduce_refs:
  "next_ref s \<le> tree_ref (state (reduce a s))"
  "refs_allocated s \<Longrightarrow> refs_allocated (reduce a s)"
  "items_reducer (st_items (state s)) a = Same \<Longrightarrow>
     items_ref (state (reduce a s)) = items_ref (state s)
     \<and> st_items (state (reduce a s)) = st_items (state s)"
  "items_reducer (st_items (state s)) a \<noteq> Same \<Longrightarrow> items_ref (state (reduce a s)) = next_ref s"
  by (auto simp: reduce_def place_def Let_def refs_allocated_def split: prod.splits reduced.splits)

lemma render_items:
  "differs tree_ref (getState (store w)) (prevState w) \<Longrightarrow>
   differs items_ref (getState (store w)) (prevState w) \<Longrightarrow>
     passedElement (projr (render w)) =
       set_value (js_join (delimiter (options w)) (getItemsReducedToValues (store w))) (passedElement w)"
  "\<not> differs items_ref (getState (store w)) (prevState w) \<Longrightarrow>
     passedElement (projr (render w)) = passedElement w"
  "differs tree_ref (getState (store w)) (prevState w) \<Longrightarrow>
     prevState (projr (render w)) = Some (getState (store w))"
  by (simp_all add: render_def render_options_region_def Let_def highlightOption_None
      renderItems_def)

lemma dispatch_settled:
  assumes s: "settled w" and ok: "is_item_dispatch a \<or> synced w"
  shows "returns (dispatch a w) (\<lambda>w'. settled w' \<and> synced w')"
proof -
  define w1 where "w1 = w\<lparr>store := reduce a (store w)\<rparr>"
  define w' where "w' = projr (render w1)"
  have d: "dispatch a w = Inr w'"
    using s render_total [of w1] by (simp add: dispatch_def Let_def settled_def w1_def w'_def)
  have prev: "prevState w1 = Some (state (store w))" "store w1 = reduce a (store w)"
    "options w1 = options w" "subscribed w1" "passedElement w1 = passedElement w"
    using s by (simp_all add: w1_def settled_def getState_def)
  have tree: "differs tree_ref (getState (store w1)) (prevState w1)"
    using s reduce_refs(1) [of "store w" a]
    by (simp add: differs_def prev getState_def settled_def refs_allocated_def)
  have set': "settled w'"
    using s tree reduce_refs(2) [of "store w" a]
    by (simp add: settled_def w'_def render_frame render_items(3) prev)
  have "synced w'"
  proof (cases "items_reducer (st_items (state (store w))) a = Same")
    case True
    then have "\<not> is_item_dispatch a" by (cases a) simp_all
    with ok have sy: "synced w" by simp
    from True have same: "items_ref (state (store w1)) = items_ref (state (store w))"
      "st_items (state (store w1)) = st_items (state (store w))"
      using reduce_refs(3) [of "store w" a] by (simp_all add: prev)
    then have "\<not> differs items_ref (getState (store w1)) (prevState w1)"
      by (simp add: differs_def prev getState_def)
    then have "passedElement w' = passedElement w"
      unfolding w'_def by (simp add: render_items(2) prev)
    with sy same show ?thesis
      by (simp add: synced_def w'_def render_frame prev(3) getItemsReducedToValues_def)
  next
    case False
    then have "items_ref (state (store w1)) = next_ref (store w)"
      using reduce_refs(4) [of "store w" a] by (simp add: prev)
    with s have "differs items_ref (getState (store w1)) (prevState w1)"
      by (simp add: differs_def prev getState_def settled_def refs_allocated_def)
    with tree show ?thesis
      by (simp add: synced_def w'_def render_frame render_items(1) get_value_set_value)
  qed
  with set' show ?thesis by (simp add: d)
qed

text \<open>
  C1, as the code has it. Start from a widget over a text control, at rest and with its
  control in sync (as \<open>init\<close> leaves it). After any sequence of add-item and
  remove-item dispatches, each followed by the render it triggers, the value of the
  control is the sequence of the active items' values, in insertion order, joined by
  the configured delimiter, with every line feed and carriage return removed (the
  control strips them); so it is the joined string itself whenever that string holds no
  line break, whatever the delimiter is.
\<close>

theorem text_control_value_is_joined_items:
  assumes "settled w" and "synced w" and "el_type (passedElement w) = ''text''"
    and "\<forall>a \<in> set acts. is_item_dispatch a"
  shows "returns (forEachE acts dispatch w)
    (\<lambda>w'. get_value (passedElement w') =
             strip_newlines (js_join (delimiter (options w')) (getItemsReducedToValues (store w')))
         \<and> (CHR 0x0A \<notin> set (js_join (delimiter (options w')) (getItemsReducedToValues (store w')))
            \<and> CHR 0x0D \<notin> set (js_join (delimiter (options w')) (getItemsReducedToValues (store w')))
            \<longrightarrow> get_value (passedElement w') =
                  js_join (delimiter (options w')) (getItemsReducedToValues (store w'))))"
proof -
  have "returns (forEachE acts dispatch w)
          (\<lambda>w'. (settled w' \<and> synced w') \<and> el_type (passedElement w') = ''text'')"
  proof (rule forEachE_inv)
    show "(settled w \<and> synced w) \<and> el_type (passedElement w) = ''text''"
      using assms by simp
  next
    fix a and s :: widget
    assume s: "(settled s \<and> synced s) \<and> el_type (passedElement s) = ''text''"
    have "returns (dispatch a s) (\<lambda>w'. settled w' \<and> synced w')"
      using s by (simp add: dispatch_settled)
    moreover have "returns (dispatch a s) (\<lambda>w'. el_type (passedElement w') = ''text'')"
      using s by (subst dispatch_total) (simp add: dispatch_frame)
    ultimately show "returns (dispatch a s)
          (\<lambda>w'. (settled w' \<and> synced w') \<and> el_type (passedElement w') = ''text'')"
      by (cases "dispatch a s") simp_all
  qed
  then show ?thesis
  proof (rule returns_mono)
    fix w' :: widget
    assume w': "(settled w' \<and> synced w') \<and> el_type (passedElement w') = ''text''"
    then have v: "get_value (passedElement w') =
             strip_newlines (js_join (delimiter (options w')) (getItemsReducedToValues (store w')))"
      by (simp add: synced_def written_def is_select_def)
    have "strip_newlines s = s" if "CHR 0x0A \<notin> set s" "CHR 0x0D \<notin> set s" for s
      unfolding strip_newlines_def using that by (simp add: filter_id_conv) metis
    with v show "get_value (passedElement w') =
             strip_newlines (js_join (delimiter (options w')) (getItemsReducedToValues (store w')))
         \<and> (CHR 0x0A \<notin> set (js_join (delimiter (options w')) (getItemsReducedToValues (store w')))
            \<and> CHR 0x0D \<notin> set (js_join (delimiter (options w')) (getItemsReducedToValues (store w')))
            \<longrightarrow> get_value (passedElement w') =
                  js_join (delimiter (options w')) (getItemsReducedToValues (store w')))"
      by simp
  qed
qed

text \<open>On the tags \<open>a,b\<close>: adding \<open>c\<close> and removing item 2 leaves the value \<open>a,c\<close>.\<close>

theorem text_control_value_is_joined_items_witness:
  "settled tags_ab \<and> synced tags_ab \<and> el_type (passedElement tags_ab) = ''text''
   \<and> is_item_dispatch (addItemA ''c'' ''c'' 3 (-1)) \<and> is_item_dispatch (removeItemA 2 (-1))
   \<and> returns (forEachE [addItemA ''c'' ''c'' 3 (-1), removeItemA 2 (-1)] dispatch tags_ab)
       (\<lambda>w'. get_value (passedElement w') =
                strip_newlines (js_join (delimiter (options w')) (getItemsReducedToValues (store w'))))
   \<and> get_value (passedElement (projr (forEachE [addItemA ''c'' ''c'' 3 (-1), removeItemA 2 (-1)] dispatch tags_ab)))
       = ''a,c''"
proof -
  have h: "settled tags_ab" "synced tags_ab" "el_type (passedElement tags_ab) = ''text''"
    by code_simp+
  have a: "\<forall>a \<in> set [addItemA ''c'' ''c'' 3 (-1), removeItemA 2 (-1)]. is_item_dispatch a"
    by (simp add: addItemA_def removeItemA_def)
  have v: "get_value (passedElement (projr (forEachE [addItemA ''c'' ''c'' 3 (-1), removeItemA 2 (-1)] dispatch tags_ab)))
       = ''a,c''"
    by code_simp
  have "returns (forEachE [addItemA ''c'' ''c'' 3 (-1), removeItemA 2 (-1)] dispatch tags_ab)
       (\<lambda>w'. get_value (passedElement w') =
                strip_newlines (js_join (delimiter (options w')) (getItemsReducedToValues (store w'))))"
    by (rule returns_mono [OF text_control_value_is_joined_items [OF h a]]) simp
  then show ?thesis
    using h a v by simp
qed

text \<open>
  C1 as stated fails. On the multiple select with the options \<open>x\<close>, \<open>y\<close>, \<open>z\<close>, at rest
  and in sync after \<open>init\<close>, the add-item dispatches for \<open>x\<close> and \<open>z\<close> leave the joined
  string \<open>x,z\<close>, but the control reads the empty string: a select keeps no string, and
  no native option has the value \<open>x,z\<close>. On a text control whose delimiter is a line
  feed, the items \<open>a\<close> and \<open>b\<close> join to \<open>a\<close>, line feed, \<open>b\<close>, but the control reads \<open>ab\<close>.
\<close>

theorem control_value_differs_from_joined_items:
  "settled three_options \<and> synced three_options
   \<and> get_value (passedElement three_options) =
       js_join (delimiter (options three_options)) (getItemsReducedToValues (store three_options))
   \<and> js_join (delimiter (options x_and_z_chosen)) (getItemsReducedToValues (store x_and_z_chosen)) = ''x,z''
   \<and> get_value (passedElement x_and_z_chosen) = []
   \<and> js_join (delimiter (options lines_a_b)) (getItemsReducedToValues (store lines_a_b)) =
       [CHR ''a'', CHR 0x0A, CHR ''b'']
   \<and> get_value (passedElement lines_a_b) = ''ab''"
  by code_simp

section \<open>A burst of keystrokes\<close>

text \<open>
  While the owners of the pending timers are debounced functions made earlier (as they
  always are), a key up that searches appends a timer of a new owner, and no key up
  removes a pending timer.
\<close>

lemma onKeyUp_schedules:
  assumes "el_type (passedElement w) = ''select-multiple'' \<or> el_type (passedElement w) = ''select-one''"
    and "allowSearch (options w)" and "input_focused w"
    and "input_value w \<noteq> []" and "getOptions (store w) \<noteq> []"
    and "\<forall>t \<in> set (timers w). owner t < next_debounced w"
  shows "onKeyUp True now w =
           Inr (w\<lparr>next_debounced := Suc (next_debounced w),
                  timers := timers w @ [\<lparr>owner = next_debounced w, due = now + 500\<rparr>]\<rparr>)"
proof -
  have "filter (\<lambda>t. owner t \<noteq> next_debounced w) (timers w) = timers w"
    using assms(6) by (auto simp: filter_id_conv)
  then show ?thesis
    using assms(1-5) by (simp add: onKeyUp_def Let_def debounce_def call_debounced_def)
qed

lemma onKeyUp_keeps_pending_timers:
  assumes "\<forall>t \<in> set (timers w). owner t < next_debounced w"
  shows "returns (onKeyUp target now w)
           (\<lambda>w'. take (length (timers w)) (timers w') = timers w
                \<and> (\<forall>t \<in> set (timers w'). owner t < next_debounced w'))"
proof -
  have f: "filter (\<lambda>t. owner t \<noteq> next_debounced w) (timers w) = timers w"
    using assms by (auto simp: filter_id_conv)
  define v where "v = w\<lparr>isSearching := False\<rparr>"
  obtain u where d: "dispatch activateOptionsA v = Inr u"
    and k: "timers u = timers w" "next_debounced u = next_debounced w"
    using dispatch_total [of activateOptionsA v] dispatch_frame(6,7) [of activateOptionsA v]
    by (simp add: v_def)
  show ?thesis
    unfolding onKeyUp_def Let_def v_def [symmetric] d
    using assms by (simp add: k debounce_def call_debounced_def f less_Suc_eq)
qed

text \<open>
  C7 fails on the code. \<open>onKeyUp\<close> makes a new debounced function on every key up, so
  no call ever replaces the pending timer of an earlier keystroke. On the multiple
  select with three options, while \<open>x\<close> is in the focused input: a key up at 0 ms and
  one at 100 ms leave two pending timers, and once both have fired the store has
  reduced two filter actions, where the claim allows at most one.
\<close>

theorem burst_of_two_keystrokes_filters_twice:
  "length (timers (projr (bindE (onKeyUp True 0 typing_x) (onKeyUp True 100)))) = 2
   \<and> \<not> isl (bindE (bindE (onKeyUp True 0 typing_x) (onKeyUp True 100)) (run_timers exact_match 1000))
   \<and> length (filter is_filter_dispatch
        (dispatched (store (projr
           (bindE (bindE (onKeyUp True 0 typing_x) (onKeyUp True 100)) (run_timers exact_match 1000)))))) = 2
   \<and> filter is_filter_dispatch (dispatched (store typing_x)) = []"
  by code_simp

text \<open>So the burst has led to more than one filter dispatch.\<close>

theorem burst_of_two_keystrokes_filters_twice_witness:
  "1 < length (filter is_filter_dispatch
        (dispatched (store (projr
           (bindE (bindE (onKeyUp True 0 typing_x) (onKeyUp True 100)) (run_timers exact_match 1000))))))"
  using burst_of_two_keystrokes_filters_twice by simp

section \<open>The states the widget reaches\<close>

text \<open>
  The hypotheses of the theorems above hold of every widget the program builds: the
  constructor leaves the widget settled, its control synced and its ids in sequence,
  and \<open>addItem\<close> and \<open>removeItem\<close> keep it so. The lemmas \<open>_preserves\<close> say that what
  every dispatch, diagnostic and callback keeps is kept by the operations built from
  them.
\<close>

lemma removeItem_preserves:
  assumes d: "\<And>i oid v. P v \<Longrightarrow> returns (dispatch (REMOVE_ITEM i oid) v) P"
    and c: "\<And>m v. P v \<Longrightarrow> P (console_error m v)"
    and w: "P w"
  shows "returns (removeItem item cb w) P"
proof (cases item)
  case (JSObject it)
  have "P (projr (dispatch (removeItemA (item_id it) (item_optionId it)) w))"
    using returns_projr [OF d [OF w]] by (simp add: removeItemA_def)
  then show ?thesis
    by (simp add: JSObject removeItem_object Let_def c)
qed (simp_all add: removeItem_def isType_def c w)

lemma removeActiveItems_preserves:
  assumes d: "\<And>i oid v. P v \<Longrightarrow> returns (dispatch (REMOVE_ITEM i oid) v) P"
    and c: "\<And>m v. P v \<Longrightarrow> P (console_error m v)"
    and w: "P w"
  shows "returns (removeActiveItems ex w) P"
  unfolding removeActiveItems_def Let_def
  by (rule forEachE_inv) (simp_all add: removeItem_preserves [of P, OF d c] w)

lemma addItem_preserves:
  assumes d: "\<And>a v. P v \<Longrightarrow> returns (dispatch a v) P"
    and c: "\<And>m v. P v \<Longrightarrow> P (console_error m v)"
    and f: "\<And>cb args v. P v \<Longrightarrow> P (call cb args v)"
    and w: "P w"
  shows "returns (addItem value label oid cb w) P"
  unfolding addItem_def Let_def returns_bindE
proof (rule returns_mono [OF d [OF w]])
  fix w1 :: widget
  assume w1: "P w1"
  have "returns (if el_type (passedElement w1) = ''select-one''
                 then removeActiveItems (int (length (getItems (store w))) + 1) w1 else Inr w1) P"
    using removeActiveItems_preserves [of P, OF d c w1] w1 by simp
  then show "returns (if el_type (passedElement w1) = ''select-one''
                 then removeActiveItems (int (length (getItems (store w))) + 1) w1 else Inr w1)
     (\<lambda>a. returns
           (Inr (if truthy (if cb = Undefined then callbackOnAddItem (options w) else cb)
                 then if isType ''Function'' (if cb = Undefined then callbackOnAddItem (options w) else cb)
                      then call (if cb = Undefined then callbackOnAddItem (options w) else cb)
                             [JSNumber (int (length (getItems (store w))) + 1), JSString value] a
                      else console_error ''callbackOnAddItem: Callback is not a function'' a
                 else a)) P)"
    by (rule returns_mono) (simp add: c f)
qed

lemma addOption_preserves:
  assumes d: "\<And>a v. P v \<Longrightarrow> \<not> is_item_dispatch a \<Longrightarrow> returns (dispatch a v) P"
    and a: "\<And>value label oid cb v. P v \<Longrightarrow> returns (addItem value label oid cb v) P"
    and w: "P w"
  shows "returns (addOption option groupId w) P"
  unfolding addOption_def Let_def returns_bindE
  by (rule returns_mono [OF d [OF w]]) (simp_all add: addOptionA_def a)

lemma addGroup_preserves:
  assumes d: "\<And>a v. P v \<Longrightarrow> \<not> is_item_dispatch a \<Longrightarrow> returns (dispatch a v) P"
    and a: "\<And>value label oid cb v. P v \<Longrightarrow> returns (addItem value label oid cb v) P"
    and w: "P w"
  shows "returns (addGroup optgroup ident isFirst w) P"
  unfolding addGroup_def Let_def returns_bindE
  by (rule returns_mono [OF d [OF w]], simp add: addGroupA_def)
     (rule forEachE_inv, simp_all add: addOption_preserves [of P, OF d a])

lemma generateInput_preserves:
  assumes d: "\<And>a v. P v \<Longrightarrow> \<not> is_item_dispatch a \<Longrightarrow> returns (dispatch a v) P"
    and a: "\<And>value label oid cb v. P v \<Longrightarrow> returns (addItem value label oid cb v) P"
    and g: "P (w\<lparr>highlightPosition := 0, dropdown := [], isSearching := False\<rparr>)"
    and w: "P w"
  shows "returns (generateInput presetItems w) P"
proof -
  have groups: "returns (forEachE xs (\<lambda>(optgroup, index). addGroup optgroup (int index) (index = 0)) v) P"
    if "P v" for xs v
    by (rule forEachE_inv) (auto simp: that addGroup_preserves [of P, OF d a])
  have opts: "returns (forEachE xs (\<lambda>option. addOption option (-1)) v) P" if "P v" for xs v
    by (rule forEachE_inv) (simp_all add: that addOption_preserves [of P, OF d a])
  have its: "returns (forEachE xs (\<lambda>value. addItem value None None Undefined) v) P" if "P v" for xs v
    by (rule forEachE_inv) (simp_all add: that a)
  show ?thesis
    unfolding generateInput_def Let_def
    using groups [OF g] opts [OF g] its [OF w] w by simp
qed

lemma returns_conj: "returns m P \<Longrightarrow> returns m Q \<Longrightarrow> returns m (\<lambda>a. P a \<and> Q a)"
  by (cases m) simp_all

lemma reduce_keeps_ids:
  "\<not> is_item_dispatch a \<or> (\<exists>i oid. a = REMOVE_ITEM i oid) \<Longrightarrow>
     map item_id (st_items (state (reduce a s))) = map item_id (st_items (state s))"
  by (cases a) (auto simp: reduce_def place_def Let_def o_def split: prod.splits)

lemma dispatch_ids:
  assumes "ids_in_sequence (store w)"
    and "\<not> is_item_dispatch a \<or> (\<exists>i oid. a = REMOVE_ITEM i oid)"
  shows "returns (dispatch a w) (\<lambda>w'. ids_in_sequence (store w'))"
proof -
  have "map item_id (st_items (state (reduce a (store w)))) = map item_id (st_items (state (store w)))"
    using assms(2) by (rule reduce_keeps_ids)
  moreover from this have "length (st_items (state (reduce a (store w)))) = length (st_items (state (store w)))"
    by (rule map_eq_imp_length_eq)
  ultimately have "ids_in_sequence (reduce a (store w))"
    using assms(1) by (simp add: ids_in_sequence_def getItems_def)
  then show ?thesis
    by (subst dispatch_total) (simp add: dispatch_frame)
qed

lemma addItem_keeps_ids:
  assumes "ids_in_sequence (store w)"
  shows "returns (addItem value label oid cb w) (\<lambda>w'. ids_in_sequence (store w'))"
proof (rule returns_mono [OF addItem_ids [of "value" label oid cb w]])
  fix w' :: widget
  assume e: "map item_id (getItems (store w')) =
             map item_id (getItems (store w)) @ [int (length (getItems (store w))) + 1]"
  then have "length (getItems (store w')) = Suc (length (getItems (store w)))"
    by (metis length_append_singleton length_map)
  with e assms show "ids_in_sequence (store w')"
    by (simp add: ids_in_sequence_def)
qed

lemma removeItem_keeps_ids:
  assumes "ids_in_sequence (store w)"
  shows "returns (removeItem item cb w) (\<lambda>w'. ids_in_sequence (store w'))"
proof (rule removeItem_preserves)
  fix i oid and v :: widget
  assume "ids_in_sequence (store v)"
  then show "returns (dispatch (REMOVE_ITEM i oid) v) (\<lambda>w'. ids_in_sequence (store w'))"
    by (rule dispatch_ids) simp
qed (simp_all add: assms console_error_def)

text \<open>Before \<open>init\<close> subscribes \<open>render\<close>.\<close>

lemma unsubscribed_dispatch:
  assumes "\<not> subscribed w \<and> prevState w = None \<and> refs_allocated (store w)"
  shows "returns (dispatch a w)
           (\<lambda>w'. \<not> subscribed w' \<and> prevState w' = None \<and> refs_allocated (store w'))"
  using assms by (simp add: dispatch_def Let_def reduce_refs(2))

lemma generateInput_ready:
  assumes "\<not> subscribed w \<and> prevState w = None \<and> refs_allocated (store w)"
    and "ids_in_sequence (store w)"
  shows "returns (generateInput presetItems w)
           (\<lambda>w'. (\<not> subscribed w' \<and> prevState w' = None \<and> refs_allocated (store w'))
                \<and> ids_in_sequence (store w'))"
proof (rule generateInput_preserves)
  fix a and v :: widget
  assume "(\<not> subscribed v \<and> prevState v = None \<and> refs_allocated (store v)) \<and> ids_in_sequence (store v)"
    and "\<not> is_item_dispatch a"
  then show "returns (dispatch a v)
           (\<lambda>w'. (\<not> subscribed w' \<and> prevState w' = None \<and> refs_allocated (store w'))
                \<and> ids_in_sequence (store w'))"
    by (intro returns_conj unsubscribed_dispatch dispatch_ids) simp_all
next
  fix "value" label oid cb and v :: widget
  assume v: "(\<not> subscribed v \<and> prevState v = None \<and> refs_allocated (store v)) \<and> ids_in_sequence (store v)"
  have "returns (addItem value label oid cb v)
          (\<lambda>w'. \<not> subscribed w' \<and> prevState w' = None \<and> refs_allocated (store w'))"
    by (rule addItem_preserves)
       (simp_all add: v unsubscribed_dispatch console_error_def call_def split: js_value.splits)
  moreover have "returns (addItem value label oid cb v) (\<lambda>w'. ids_in_sequence (store w'))"
    using v by (simp add: addItem_keeps_ids)
  ultimately show "returns (addItem value label oid cb v)
           (\<lambda>w'. (\<not> subscribed w' \<and> prevState w' = None \<and> refs_allocated (store w'))
                \<and> ids_in_sequence (store w'))"
    by (rule returns_conj)
qed (simp_all add: assms)

lemma init_at_rest:
  assumes "\<not> subscribed w \<and> prevState w = None \<and> refs_allocated (store w)"
    and "ids_in_sequence (store w)"
  shows "returns (init presetItems w)
           (\<lambda>w'. settled w' \<and> synced w' \<and> ids_in_sequence (store w'))"
  unfolding init_def returns_bindE
proof (rule returns_mono [OF generateInput_ready [OF assms]])
  fix w1 :: widget
  assume w1: "(\<not> subscribed w1 \<and> prevState w1 = None \<and> refs_allocated (store w1))
              \<and> ids_in_sequence (store w1)"
  define v where "v = w1\<lparr>subscribed := True\<rparr>"
  have v: "prevState v = None" "store v = store w1" "subscribed v" "options v = options w1"
    using w1 by (simp_all add: v_def)
  have dirty: "differs f (getState (store v)) (prevState v)" for f
    by (simp add: differs_def v(1))
  have "settled (projr (render v))"
    using w1 by (simp add: settled_def render_frame render_items(3) [OF dirty] v)
  moreover have "synced (projr (render v))"
    by (simp add: synced_def render_frame render_items(1) [OF dirty dirty] get_value_set_value)
  moreover have "ids_in_sequence (store (projr (render v)))"
    using w1 by (simp add: render_frame v)
  ultimately show "returns (render (w1\<lparr>subscribed := True\<rparr>))
           (\<lambda>w'. settled w' \<and> synced w' \<and> ids_in_sequence (store w'))"
    unfolding v_def [symmetric] by (subst render_total) simp
qed

lemma Choices_at_rest:
  assumes "el_type el \<in> set [''select-one'', ''select-multiple'', ''text'']"
  shows "returns (Choices el cfg) (\<lambda>w. settled w \<and> synced w \<and> ids_in_sequence (store w))"
proof -
  have "refs_allocated new_Store" "ids_in_sequence new_Store"
    by (simp_all add: refs_allocated_def ids_in_sequence_def new_Store_def getItems_def)
  then show ?thesis
    using assms unfolding Choices_def Let_def
    by (simp only: if_True) (rule init_at_rest; simp)
qed

lemma dispatch_at_rest:
  assumes "settled w \<and> synced w"
  shows "returns (dispatch a w) (\<lambda>w'. settled w' \<and> synced w')"
  using assms by (simp add: dispatch_settled)

lemma addItem_at_rest:
  assumes "settled w \<and> synced w \<and> ids_in_sequence (store w)"
  shows "returns (addItem value label oid cb w)
           (\<lambda>w'. settled w' \<and> synced w' \<and> ids_in_sequence (store w'))"
proof -
  have "returns (addItem value label oid cb w) (\<lambda>w'. settled w' \<and> synced w')"
  proof (rule addItem_preserves)
    show "settled w \<and> synced w" using assms by simp
  next
    fix a and v :: widget
    assume "settled v \<and> synced v"
    then show "returns (dispatch a v) (\<lambda>w'. settled w' \<and> synced w')"
      by (rule dispatch_at_rest)
  next
    fix m and v :: widget
    assume "settled v \<and> synced v"
    then show "settled (console_error m v) \<and> synced (console_error m v)"
      by (simp add: console_error_def settled_def synced_def)
  next
    fix c args and v :: widget
    assume "settled v \<and> synced v"
    then show "settled (call c args v) \<and> synced (call c args v)"
      by (cases c) (simp_all add: call_def settled_def synced_def)
  qed
  moreover have "returns (addItem value label oid cb w) (\<lambda>w'. ids_in_sequence (store w'))"
    using assms by (simp add: addItem_keeps_ids)
  ultimately have "returns (addItem value label oid cb w)
      (\<lambda>w'. (settled w' \<and> synced w') \<and> ids_in_sequence (store w'))"
    by (rule returns_conj)
  then show ?thesis by simp
qed

lemma removeItem_at_rest:
  assumes "settled w \<and> synced w \<and> ids_in_sequence (store w)"
  shows "returns (removeItem item cb w)
           (\<lambda>w'. settled w' \<and> synced w' \<and> ids_in_sequence (store w'))"
proof -
  have "returns (removeItem item cb w) (\<lambda>w'. settled w' \<and> synced w')"
  proof (rule removeItem_preserves)
    show "settled w \<and> synced w" using assms by simp
  next
    fix i oid and v :: widget
    assume "settled v \<and> synced v"
    then show "returns (dispatch (REMOVE_ITEM i oid) v) (\<lambda>w'. settled w' \<and> synced w')"
      by (rule dispatch_at_rest)
  next
    fix m and v :: widget
    assume "settled v \<and> synced v"
    then show "settled (console_error m v) \<and> synced (console_error m v)"
      by (simp add: console_error_def settled_def synced_def)
  qed
  moreover have "returns (removeItem item cb w) (\<lambda>w'. ids_in_sequence (store w'))"
    using assms by (simp add: removeItem_keeps_ids)
  ultimately have "returns (removeItem item cb w)
      (\<lambda>w'. (settled w' \<and> synced w') \<and> ids_in_sequence (store w'))"
    by (rule returns_conj)
  then show ?thesis by simp
qed

end
